theory Spec2Isabelle
  imports Complex_Main "HOL-Library.Sublist" "HOL-Library.Word"
begin

section \<open>rgispy.sample: decoding and sampling of RGIS datastreams\<close>

text \<open>
  A shallow embedding of \<^verbatim>\<open>src/rgispy/sample.py\<close>. Every \<^verbatim>\<open>raise\<close> and every failing
  \<^verbatim>\<open>assert\<close> of the source is a value \<open>Inl e\<close> of the result type \<open>error + 'a\<close>.
\<close>

subsection \<open>Exceptions\<close>

text \<open>
  The exceptions the modelled code can raise. \<open>UnknownValueFormat n\<close> is the plain
  \<^verbatim>\<open>Exception("Unknown value format: type n")\<close> of \<^verbatim>\<open>_npType\<close>; \<open>AssertionError msg\<close> is a
  failed \<^verbatim>\<open>assert\<close> with its message; the others are the built-in exceptions of Python
  and numpy of the same name.
\<close>

datatype error =
    UnknownValueFormat int
  | AssertionError string
  | ValueError
  | IndexError
  | KeyError
  | AttributeError
  | UnboundLocalError
  | OverflowError

subsection \<open>\<^verbatim>\<open>_npType\<close>: type codes\<close>

text \<open>The four numpy element types the decoder uses.\<close>

datatype dtype = int16 | int32 | float32 | float64

text \<open>
  \<^verbatim>\<open>_npType(nType)\<close>: an \<^verbatim>\<open>if/elif\<close> chain on the code, whose \<^verbatim>\<open>else\<close> raises.
\<close>

definition npType :: "int \<Rightarrow> error + dtype" where
  "npType nType =
     (if nType = 5 then Inr int16
      else if nType = 6 then Inr int32
      else if nType = 7 then Inr float32
      else if nType = 8 then Inr float64
      else Inl (UnknownValueFormat nType))"

text \<open>\<^verbatim>\<open>npType(1).itemsize\<close>: the width of one element in bytes.\<close>

fun itemsize :: "dtype \<Rightarrow> nat" where
  "itemsize int16 = 2"
| "itemsize int32 = 4"
| "itemsize float32 = 4"
| "itemsize float64 = 8"

subsection \<open>\<^verbatim>\<open>n_records\<close>: records per year\<close>

text \<open>
  \<^verbatim>\<open>str.lower()\<close> on the ASCII range: each of the letters \<open>A\<close> to \<open>Z\<close> moves to its
  lower-case letter, every other character stays.
\<close>

definition lower_char :: "char \<Rightarrow> char" where
  "lower_char c =
     (case map_of (zip ''ABCDEFGHIJKLMNOPQRSTUVWXYZ'' ''abcdefghijklmnopqrstuvwxyz'') c of
        Some l \<Rightarrow> l
      | None \<Rightarrow> c)"

definition lower :: "string \<Rightarrow> string" where
  "lower s = map lower_char s"

text \<open>
  \<^verbatim>\<open>pd.Period("{}-01-01".format(year))\<close>, given by the year of the period it makes, or by
  the \<^verbatim>\<open>ValueError\<close> it raises. pandas is not part of the repository. It parses the
  string into a \<^verbatim>\<open>datetime\<close>, whose years run from 1 to 9999:
  \<^item> the string of a year from 1000 to 9999 is an ISO 8601 date, and the period is the
    first of January of that year;
  \<^item> the string of a year of five digits names a year that no \<^verbatim>\<open>datetime\<close> holds, and
    the parse raises;
  \<^item> any other string (a year of less than four digits, a negative year, a longer
    one) is not an ISO date, and what the fallback parser makes of it is the parameter
    \<open>parse\<close>, \<open>None\<close> where it raises: it does not in general find the year that was
    formatted (it reads \<^verbatim>\<open>"4-01-01"\<close> as month 4, day 1 of the year 01).
\<close>

definition Period :: "(int \<Rightarrow> int option) \<Rightarrow> int \<Rightarrow> error + int" where
  "Period parse year =
     (if 1000 \<le> year \<and> year \<le> 9999 then Inr year
      else if 10000 \<le> year \<and> year \<le> 99999 then Inl ValueError
      else (case parse year of None \<Rightarrow> Inl ValueError | Some y \<Rightarrow> Inr y))"

text \<open>
  \<^verbatim>\<open>p.is_leap_year\<close>: the test \<^verbatim>\<open>(year & 3) == 0 and (year % 100 != 0 or year % 400 == 0)\<close>
  of pandas on the year of the period.
\<close>

definition is_leap_year :: "int \<Rightarrow> bool" where
  "is_leap_year year \<longleftrightarrow> year mod 4 = 0 \<and> (year mod 100 \<noteq> 0 \<or> year mod 400 = 0)"

text \<open>
  \<^verbatim>\<open>n_records(year, time_step)\<close>: lower-cases the time step, asserts that it is one of
  the three known ones, then branches; only the last branch makes the period. \<open>parse\<close>
  is the parameter of \<open>Period\<close>.
\<close>

definition n_records :: "(int \<Rightarrow> int option) \<Rightarrow> int \<Rightarrow> string \<Rightarrow> error + nat" where
  "n_records parse year time_step =
     (let time_step = lower time_step in
      if time_step \<notin> set [''annual'', ''monthly'', ''daily'']
      then Inl (AssertionError ''time_step must be annual monthly or daily'')
      else if time_step = ''annual'' then Inr 1
      else if time_step = ''monthly'' then Inr 12
      else (case Period parse year of
              Inl e \<Rightarrow> Inl e
            | Inr p \<Rightarrow> (let days = (if is_leap_year p then 366 else 365) in Inr days)))"

subsection \<open>\<^verbatim>\<open>get_true_datastream\<close>: the byte source\<close>

text \<open>
  \<^verbatim>\<open>file_name.split(".", 1)[-1]\<close>: the text after the first dot of the name, and the
  whole name when it has no dot.
\<close>

definition extension :: "string \<Rightarrow> string" where
  "extension file_name =
     (case dropWhile (\<lambda>c. c \<noteq> CHR ''.'') file_name of
        [] \<Rightarrow> file_name
      | _ # rest \<Rightarrow> rest)"

text \<open>The nested helper \<^verbatim>\<open>_is_compressed(file_name)\<close>.\<close>

definition is_compressed :: "string \<Rightarrow> error + bool" where
  "is_compressed file_name =
     (let extension = extension file_name in
      if extension \<notin> set [''gds.gz'', ''ds.gz'', ''gds'', ''ds'']
      then Inl (AssertionError ''extension must be either gz or gds or ds'')
      else if extension \<in> set [''gds.gz'', ''ds.gz''] then Inr True
      else Inr False)"

text \<open>\<^verbatim>\<open>Path(p).name\<close>: the last component of a path, the text after its last slash.\<close>

definition path_name :: "string \<Rightarrow> string" where
  "path_name p = rev (takeWhile (\<lambda>c. c \<noteq> CHR ''/'') (rev p))"

text \<open>
  The argument \<^verbatim>\<open>file_in\<close> is either path-like (a \<^verbatim>\<open>str\<close> or \<^verbatim>\<open>Path\<close>) or a file object.
  A path-like argument is given by the path \<^verbatim>\<open>Path(file_in).resolve()\<close> it resolves to.
  Of a file object the function reads the attribute \<^verbatim>\<open>name\<close> (absent, a string, or
  something \<^verbatim>\<open>Path\<close> rejects with a \<^verbatim>\<open>TypeError\<close>, such as the integer file descriptor of a
  pipe) and whether it has an attribute \<^verbatim>\<open>buffer\<close>.
\<close>

datatype file_name = NoName | StrName string | OtherName

datatype file_in = PathLike string | FileObject file_name bool

text \<open>
  What is returned: \<^verbatim>\<open>gzip.open(p)\<close>, \<^verbatim>\<open>open(p, "rb")\<close>, the file object that was
  passed in, or its \<^verbatim>\<open>buffer\<close>. The flag beside it tells whether \<^verbatim>\<open>file_in.close()\<close>
  has been called.
\<close>

datatype reader = GzipReader string | RawReader string | GivenObject | GivenBuffer

definition get_true_datastream :: "file_in \<Rightarrow> error + (reader \<times> bool)" where
  "get_true_datastream file_in =
     (case file_in of
        PathLike p \<Rightarrow>
          (case is_compressed (path_name p) of
             Inl e \<Rightarrow> Inl e
           | Inr c \<Rightarrow> if c then Inr (GzipReader p, False) else Inr (RawReader p, False))
      | FileObject nm has_buffer \<Rightarrow>
          (case nm of
             NoName \<Rightarrow> Inl AttributeError
           | OtherName \<Rightarrow> Inr (GivenObject, False)
           | StrName datastream_path \<Rightarrow>
               if datastream_path \<noteq> ''<stdin>'' then
                 (let datastream_name = path_name datastream_path in
                  case is_compressed datastream_name of
                    Inl e \<Rightarrow> Inl e
                  | Inr c \<Rightarrow>
                      if c then Inr (GzipReader datastream_name, True)
                      else Inr (GivenObject, False))
               else if has_buffer then Inr (GivenBuffer, False)
               else Inr (GivenObject, False)))"

subsection \<open>Numbers and arrays\<close>

text \<open>
  A number as Python and numpy hold it: an integer, a finite float (by its value), an
  infinity, or not-a-number.
\<close>

datatype num = IntVal int | FloatVal real | PosInf | NegInf | NaN

text \<open>
  A numpy array: its element type, its shape, and its cells in row-major order. The
  grid \<^verbatim>\<open>[[0,1],[2,1]]\<close> has shape \<open>[2, 2]\<close> and cells \<open>[0, 1, 2, 1]\<close>.
\<close>

record ndarray =
  dt :: dtype
  shape :: "nat list"
  cells :: "num list"

type_synonym byte = "8 word"

text \<open>
  Bytes to numbers, on a little-endian host (\<^verbatim>\<open>ctypes.Structure\<close> and \<^verbatim>\<open>np.frombuffer\<close>
  both use the byte order of the host): the unsigned and the two's-complement value of a
  run of bytes, and the IEEE 754 value of a bit pattern with \<open>ebits\<close> exponent bits and
  \<open>mbits\<close> fraction bits.
\<close>

definition le_nat :: "byte list \<Rightarrow> nat" where
  "le_nat bs = foldr (\<lambda>b acc. unat b + 256 * acc) bs 0"

definition le_int :: "byte list \<Rightarrow> int" where
  "le_int bs =
     (let u = int (le_nat bs); m = 2 ^ (8 * length bs) in if m \<le> 2 * u then u - m else u)"

definition ieee :: "nat \<Rightarrow> nat \<Rightarrow> nat \<Rightarrow> num" where
  "ieee ebits mbits raw =
     (let m = raw mod 2 ^ mbits;
          e = (raw div 2 ^ mbits) mod 2 ^ ebits;
          neg = ((raw div 2 ^ (mbits + ebits)) mod 2 = 1);
          bias = 2 ^ (ebits - 1) - 1
      in if e = 2 ^ ebits - 1 then (if m \<noteq> 0 then NaN else if neg then NegInf else PosInf)
         else
           (let mag = (if e = 0 then real m * 2 powi (1 - bias - int mbits)
                       else real (2 ^ mbits + m) * 2 powi (int e - bias - int mbits))
            in FloatVal (if neg then - mag else mag)))"

definition decode_item :: "dtype \<Rightarrow> byte list \<Rightarrow> num" where
  "decode_item t bs =
     (case t of
        int16 \<Rightarrow> IntVal (le_int bs)
      | int32 \<Rightarrow> IntVal (le_int bs)
      | float32 \<Rightarrow> ieee 8 23 (le_nat bs)
      | float64 \<Rightarrow> ieee 11 52 (le_nat bs))"

definition chunks :: "nat \<Rightarrow> 'a list \<Rightarrow> 'a list list" where
  "chunks n xs = map (\<lambda>i. take n (drop (i * n) xs)) [0..<length xs div n]"

text \<open>
  \<^verbatim>\<open>np.frombuffer(buf, dtype=t)\<close>: a one-dimensional array of the whole elements of the
  buffer; a buffer whose size is not a multiple of the element size is a \<^verbatim>\<open>ValueError\<close>.
\<close>

definition frombuffer :: "byte list \<Rightarrow> dtype \<Rightarrow> error + ndarray" where
  "frombuffer buf t =
     (if length buf mod itemsize t \<noteq> 0 then Inl ValueError
      else Inr \<lparr>dt = t, shape = [length buf div itemsize t],
                cells = map (decode_item t) (chunks (itemsize t) buf)\<rparr>)"

text \<open>
  Conversions between element types. \<open>wrap bits\<close> is the two's-complement value of an
  integer cut to \<open>bits\<close> bits; \<open>trunc\<close> drops the fraction of a real. A float that does
  not fit the integer type converts to the least value of the type, as the conversion
  instruction of x86-64 gives it.
\<close>

definition wrap :: "nat \<Rightarrow> int \<Rightarrow> int" where
  "wrap bits i = (i + 2 ^ (bits - 1)) mod 2 ^ bits - 2 ^ (bits - 1)"

definition trunc :: "real \<Rightarrow> int" where
  "trunc r = (if 0 \<le> r then \<lfloor>r\<rfloor> else \<lceil>r\<rceil>)"

definition to_int :: "nat \<Rightarrow> num \<Rightarrow> int" where
  "to_int bits v =
     (case v of
        IntVal i \<Rightarrow> wrap bits i
      | FloatVal r \<Rightarrow>
          if - (2 ^ (bits - 1)) \<le> trunc r \<and> trunc r < 2 ^ (bits - 1) then trunc r
          else - (2 ^ (bits - 1))
      | _ \<Rightarrow> - (2 ^ (bits - 1)))"

definition as_float :: "num \<Rightarrow> num" where
  "as_float v = (case v of IntVal i \<Rightarrow> FloatVal (of_int i) | _ \<Rightarrow> v)"

definition is_int_dtype :: "dtype \<Rightarrow> bool" where
  "is_int_dtype t \<longleftrightarrow> t = int16 \<or> t = int32"

definition int_bits :: "dtype \<Rightarrow> nat" where
  "int_bits t = 8 * itemsize t"

text \<open>
  An xarray dataset, as far as it is read: each named layer has its array \<^verbatim>\<open>.data\<close> and
  its attributes \<^verbatim>\<open>.attrs\<close>; a name or an attribute that is missing is a \<^verbatim>\<open>KeyError\<close>.
\<close>

type_synonym layer = "ndarray \<times> (string \<rightharpoonup> string)"

type_synonym dataset = "string \<rightharpoonup> layer"

text \<open>
  What the libraries and the operating system do, as far as the modelled code relies on
  it and the repository does not define it:
  \<^item> \<open>parse_year\<close>: the parameter of \<open>Period\<close>, what pandas makes of a formatted year
    that is no ISO date;
  \<^item> \<open>cast32\<close>: numpy's rounding of a real to a 32-bit float;
  \<^item> \<open>strptime\<close>: \<^verbatim>\<open>datetime.datetime.strptime(b.decode(), fmt)\<close> on the bytes of a date
    field;
  \<^item> \<open>Popen\<close>: starting a process, giving the bytes it writes to its standard output;
  \<^item> \<open>bytes_of\<close>: the bytes that reading the handle of \<^verbatim>\<open>get_true_datastream\<close> delivers;
  \<^item> \<open>open_dataset\<close>: \<^verbatim>\<open>xarray.open_dataset\<close>;
  \<^item> \<open>DataFrame\<close>: the empty pandas table of an index, a frequency of
    \<^verbatim>\<open>pd.date_range\<close> and a year;
  \<^item> \<open>set_polygon\<close>, \<open>set_point\<close>: the two pandas assignments by which \<^verbatim>\<open>sample_ds\<close>
    stores one record in one table.
\<close>

record ('dt, 'df) library =
  parse_year :: "int \<Rightarrow> int option"
  cast32 :: "real \<Rightarrow> num"
  strptime :: "byte list \<Rightarrow> string \<Rightarrow> error + 'dt"
  Popen :: "string list \<Rightarrow> error + byte list"
  bytes_of :: "file_in \<Rightarrow> reader \<Rightarrow> byte list"
  open_dataset :: "string \<Rightarrow> error + dataset"
  DataFrame :: "int list \<Rightarrow> string \<Rightarrow> int \<Rightarrow> 'df"
  set_polygon :: "'df \<Rightarrow> 'dt \<Rightarrow> ndarray \<Rightarrow> ndarray \<Rightarrow> int list \<Rightarrow> error + 'df"
  set_point :: "'df \<Rightarrow> 'dt \<Rightarrow> ndarray \<Rightarrow> ndarray \<Rightarrow> error + 'df"

text \<open>
  The conversion of a Python number to the element type of an array, which \<^verbatim>\<open>np.insert\<close>
  and the assignment \<^verbatim>\<open>a[mask] = v\<close> both apply to the value before anything is stored:
  an integer is cut to the width of an integer type (numpy 1 wraps it silently; numpy 2
  raises an \<^verbatim>\<open>OverflowError\<close> when it does not fit), and not-a-number has no integer
  value (\<^verbatim>\<open>ValueError: cannot convert float NaN to integer\<close>).
\<close>

definition to_float32 :: "(real \<Rightarrow> num) \<Rightarrow> num \<Rightarrow> num" where
  "to_float32 c32 v = (case v of IntVal i \<Rightarrow> c32 (of_int i) | FloatVal r \<Rightarrow> c32 r | _ \<Rightarrow> v)"

definition cast :: "(real \<Rightarrow> num) \<Rightarrow> dtype \<Rightarrow> num \<Rightarrow> error + num" where
  "cast c32 t v =
     (if is_int_dtype t then
        (case v of
           IntVal i \<Rightarrow> Inr (IntVal (wrap (int_bits t) i))
         | FloatVal r \<Rightarrow> Inr (IntVal (wrap (int_bits t) (trunc r)))
         | NaN \<Rightarrow> Inl ValueError
         | _ \<Rightarrow> Inl OverflowError)
      else if t = float32 then Inr (to_float32 c32 v)
      else Inr (as_float v))"

text \<open>\<^verbatim>\<open>np.insert(arr, 0, v)\<close>: the flattened array with \<open>v\<close>, converted, in front.\<close>

definition np_insert :: "(real \<Rightarrow> num) \<Rightarrow> ndarray \<Rightarrow> num \<Rightarrow> error + ndarray" where
  "np_insert c32 arr v =
     (case cast c32 (dt arr) v of
        Inl e \<Rightarrow> Inl e
      | Inr c \<Rightarrow> Inr \<lparr>dt = dt arr, shape = [Suc (length (cells arr))], cells = c # cells arr\<rparr>)"

text \<open>\<^verbatim>\<open>np.nan_to_num(a, copy=True, nan=0.0)\<close> and the \<^verbatim>\<open>astype\<close> conversions.\<close>

definition float_max :: "dtype \<Rightarrow> real" where
  "float_max t = (if t = float32 then (2 - 2 powi (- 23)) * 2 ^ 127
                  else (2 - 2 powi (- 52)) * 2 ^ 1023)"

definition nan_to_num :: "ndarray \<Rightarrow> ndarray" where
  "nan_to_num a =
     a\<lparr>cells := map (\<lambda>v. case v of
                            NaN \<Rightarrow> FloatVal 0
                          | PosInf \<Rightarrow> FloatVal (float_max (dt a))
                          | NegInf \<Rightarrow> FloatVal (- float_max (dt a))
                          | _ \<Rightarrow> v) (cells a)\<rparr>"

definition astype_int32 :: "ndarray \<Rightarrow> ndarray" where
  "astype_int32 a = a\<lparr>dt := int32, cells := map (\<lambda>v. IntVal (to_int 32 v)) (cells a)\<rparr>"

definition astype_float :: "ndarray \<Rightarrow> ndarray" where
  "astype_float a = a\<lparr>dt := float64, cells := map as_float (cells a)\<rparr>"

definition flatten :: "ndarray \<Rightarrow> ndarray" where
  "flatten a = a\<lparr>shape := [length (cells a)]\<rparr>"

definition reshape :: "ndarray \<Rightarrow> nat list \<Rightarrow> error + ndarray" where
  "reshape a shp = (if prod_list shp = length (cells a) then Inr (a\<lparr>shape := shp\<rparr>)
                    else Inl ValueError)"

text \<open>
  \<^verbatim>\<open>a[idx]\<close> for a one-dimensional \<open>a\<close> and an integer array \<open>idx\<close>: a negative index counts
  from the end, an index out of range is an \<^verbatim>\<open>IndexError\<close>; the result has the shape of
  \<open>idx\<close>.
\<close>

definition item_at :: "num list \<Rightarrow> num \<Rightarrow> error + num" where
  "item_at xs ix =
     (case ix of
        IntVal i \<Rightarrow>
          if 0 \<le> i \<and> i < int (length xs) then Inr (xs ! nat i)
          else if - int (length xs) \<le> i \<and> i < 0 then Inr (xs ! nat (i + int (length xs)))
          else Inl IndexError
      | _ \<Rightarrow> Inl IndexError)"

fun collect :: "(error + 'a) list \<Rightarrow> error + 'a list" where
  "collect [] = Inr []"
| "collect (Inl e # rs) = Inl e"
| "collect (Inr x # rs) = (case collect rs of Inl e \<Rightarrow> Inl e | Inr xs \<Rightarrow> Inr (x # xs))"

definition index_by :: "ndarray \<Rightarrow> ndarray \<Rightarrow> error + ndarray" where
  "index_by a idx =
     (case collect (map (item_at (cells a)) (cells idx)) of
        Inl e \<Rightarrow> Inl e
      | Inr cs \<Rightarrow> Inr \<lparr>dt = dt a, shape = shape idx, cells = cs\<rparr>)"

text \<open>
  \<^verbatim>\<open>a == v\<close> for a number \<open>v\<close>: cell by cell, in the element type of a 32-bit float array
  and by value otherwise; not-a-number equals nothing.
\<close>

definition num_eq :: "num \<Rightarrow> num \<Rightarrow> bool" where
  "num_eq x y \<longleftrightarrow> x \<noteq> NaN \<and> y \<noteq> NaN \<and> as_float x = as_float y"

definition np_eq :: "(real \<Rightarrow> num) \<Rightarrow> ndarray \<Rightarrow> num \<Rightarrow> bool list" where
  "np_eq c32 a v =
     map (\<lambda>c. num_eq c (if dt a = float32 then to_float32 c32 v else v)) (cells a)"

text \<open>\<^verbatim>\<open>a[mask] = v\<close>: \<open>v\<close> is converted to the element type first, then stored.\<close>

definition setitem_mask ::
  "(real \<Rightarrow> num) \<Rightarrow> ndarray \<Rightarrow> bool list \<Rightarrow> num \<Rightarrow> error + ndarray" where
  "setitem_mask c32 a msk v =
     (case cast c32 (dt a) v of
        Inl e \<Rightarrow> Inl e
      | Inr c \<Rightarrow> Inr (a\<lparr>cells := map (\<lambda>(b, x). if b then c else x) (zip msk (cells a))\<rparr>))"

subsection \<open>\<^verbatim>\<open>headDS\<close> and \<^verbatim>\<open>recordDS\<close>: reading the stream\<close>

text \<open>
  A readable byte source is the list of its unread bytes. \<^verbatim>\<open>ifile.read(n)\<close> returns up
  to \<open>n\<close> bytes and leaves the rest; a negative \<open>n\<close> reads everything.
\<close>

definition read :: "byte list \<Rightarrow> int \<Rightarrow> byte list \<times> byte list" where
  "read ifile n = (if n < 0 then (ifile, []) else (take (nat n) ifile, drop (nat n) ifile))"

text \<open>
  \<^verbatim>\<open>headDS(ifile, time_step)\<close>. \<^verbatim>\<open>MFdsHeader\<close> lays out \<open>Swap\<close> at byte 0, \<open>Type\<close> at 2,
  \<open>ItemNum\<close> at 4, the union \<open>Missing\<close> at 8 (its \<open>Int\<close> in 4 bytes, its \<open>Float\<close> in 8) and
  the 24 bytes of \<open>Date\<close> at 16; \<^verbatim>\<open>from_buffer_copy\<close> raises \<^verbatim>\<open>ValueError\<close> on fewer than 40
  bytes; a \<^verbatim>\<open>c_char\<close> array reads as its bytes before the first zero.
\<close>

definition headDS ::
  "('dt, 'df) library \<Rightarrow> byte list \<Rightarrow> string
     \<Rightarrow> (error + (int \<times> dtype \<times> num \<times> 'dt \<times> int)) \<times> byte list" where
  "headDS env ifile time_step =
     (let (forty, ifile) = read ifile 40 in
      if length forty < 40 then (Inl ValueError, ifile)
      else
        (let Type = le_int (take 2 (drop 2 forty));
             NoData = (if Type > 6 then ieee 11 52 (le_nat (take 8 (drop 8 forty)))
                       else IntVal (le_int (take 4 (drop 8 forty))))
         in case npType Type of
              Inl e \<Rightarrow> (Inl e, ifile)
            | Inr npT \<Rightarrow>
                (let date_format =
                       (if time_step = ''daily'' then ''%Y-%m-%d''
                        else if time_step = ''monthly'' then ''%Y-%m''
                        else ''%Y'')
                 in case strptime env (takeWhile (\<lambda>b. b \<noteq> 0) (drop 16 forty)) date_format of
                      Inl e \<Rightarrow> (Inl e, ifile)
                    | Inr Date \<Rightarrow>
                        (let Items = le_int (take 4 (drop 4 forty))
                         in (Inr (Type, npT, NoData, Date, Items), ifile)))))"

text \<open>\<^verbatim>\<open>recordDS(ifile, items, npType, skip)\<close>.\<close>

definition recordDS ::
  "byte list \<Rightarrow> int \<Rightarrow> dtype \<Rightarrow> bool \<Rightarrow> (error + ndarray) \<times> byte list" where
  "recordDS ifile items npT skip =
     (let ifile = (if skip then snd (read ifile 40) else ifile);
          bytes = items * int (itemsize npT);
          (buf, ifile) = read ifile bytes
      in (frombuffer buf npT, ifile))"

subsection \<open>\<^verbatim>\<open>iter_ds\<close>: the generator of records\<close>

text \<open>
  A generator is the sequence of what it does when it is resumed: it yields a value and
  can be resumed again, it returns, or it raises. Each step carries the unread bytes of
  the stream at that moment.
\<close>

datatype 'a gen =
    Yield 'a "byte list" "'a gen"
  | Return "byte list"
  | Raise error "byte list"

text \<open>
  The statements of the loop body between \<^verbatim>\<open>recordDS\<close> and \<^verbatim>\<open>yield\<close>. The result of
  \<^verbatim>\<open>Data.astype("float")\<close> is bound to \<^verbatim>\<open>_\<close> and not used: \<open>Data\<close> keeps its element type.
\<close>

definition iter_ds_remap ::
  "(real \<Rightarrow> num) \<Rightarrow> int \<Rightarrow> num \<Rightarrow> ndarray \<Rightarrow> ndarray \<Rightarrow> error + ndarray" where
  "iter_ds_remap c32 rgisType NoData cell_id Data =
     (case np_insert c32 Data NoData of
        Inl e \<Rightarrow> Inl e
      | Inr Data \<Rightarrow>
     (case index_by Data (flatten cell_id) of
        Inl e \<Rightarrow> Inl e
      | Inr Data \<Rightarrow>
     (case reshape Data (shape cell_id) of
        Inl e \<Rightarrow> Inl e
      | Inr Data \<Rightarrow>
          (let unused = (if rgisType \<le> 6 then astype_float Data else Data)
           in setitem_mask c32 Data (np_eq c32 Data NoData) NaN))))"

text \<open>
  The \<^verbatim>\<open>for day in range(0, nRecords)\<close> loop, on the days still to come. \<open>Date\<close> is the
  date of the last header read.
\<close>

fun iter_ds_loop ::
  "('dt, 'df) library \<Rightarrow> string \<Rightarrow> ndarray \<Rightarrow> int \<Rightarrow> dtype \<Rightarrow> num \<Rightarrow> int
     \<Rightarrow> nat list \<Rightarrow> 'dt \<Rightarrow> byte list \<Rightarrow> (ndarray \<times> 'dt) gen" where
  "iter_ds_loop env time_step cell_id rgisType npT NoData Cells [] Date file_buf =
     Return file_buf"
| "iter_ds_loop env time_step cell_id rgisType npT NoData Cells (day # days) Date file_buf =
     (case (if day \<noteq> 0
            then (case headDS env file_buf time_step of
                    (Inl e, file_buf) \<Rightarrow> (Inl e, file_buf)
                  | (Inr (_, _, _, Date, _), file_buf) \<Rightarrow> (Inr Date, file_buf))
            else (Inr Date, file_buf)) of
        (Inl e, file_buf) \<Rightarrow> Raise e file_buf
      | (Inr Date, file_buf) \<Rightarrow>
          (case recordDS file_buf Cells npT False of
             (Inl e, file_buf) \<Rightarrow> Raise e file_buf
           | (Inr Data, file_buf) \<Rightarrow>
               (case iter_ds_remap (cast32 env) rgisType NoData cell_id Data of
                  Inl e \<Rightarrow> Raise e file_buf
                | Inr Data \<Rightarrow>
                    Yield (Data, Date) file_buf
                      (iter_ds_loop env time_step cell_id rgisType npT NoData Cells
                         days Date file_buf))))"

definition iter_ds ::
  "('dt, 'df) library \<Rightarrow> byte list \<Rightarrow> ndarray \<Rightarrow> int \<Rightarrow> string \<Rightarrow> (ndarray \<times> 'dt) gen" where
  "iter_ds env file_buf mask_id year time_step =
     (let cell_id = astype_int32 (nan_to_num mask_id) in
      case n_records (parse_year env) year time_step of
        Inl e \<Rightarrow> Raise e file_buf
      | Inr nRecords \<Rightarrow>
          (case headDS env file_buf time_step of
             (Inl e, file_buf) \<Rightarrow> Raise e file_buf
           | (Inr (rgisType, npT, NoData, Date, Cells), file_buf) \<Rightarrow>
               iter_ds_loop env time_step cell_id rgisType npT NoData Cells
                 [0..<nRecords] Date file_buf))"

text \<open>The values a generator yields until it returns or raises, and how it ends.\<close>

fun yields :: "'a gen \<Rightarrow> 'a list" where
  "yields (Yield v f g) = v # yields g"
| "yields (Return f) = []"
| "yields (Raise e f) = []"

fun ending :: "'a gen \<Rightarrow> error option" where
  "ending (Yield v f g) = ending g"
| "ending (Return f) = None"
| "ending (Raise e f) = Some e"

fun unread_at_end :: "'a gen \<Rightarrow> byte list" where
  "unread_at_end (Yield v f g) = unread_at_end g"
| "unread_at_end (Return f) = f"
| "unread_at_end (Raise e f) = f"

text \<open>
  A record as it lies in a well-formed stream, header and cells: the header has its 40
  bytes and \<^verbatim>\<open>headDS\<close> accepts it, and the cells fill \<open>Cells\<close> elements of the type \<open>npT\<close>.
\<close>

definition record_ok ::
  "('dt, 'df) library \<Rightarrow> string \<Rightarrow> dtype \<Rightarrow> int \<Rightarrow> byte list \<times> byte list \<Rightarrow> bool" where
  "record_ok env time_step npT Cells r \<longleftrightarrow>
     (case r of (h, p) \<Rightarrow>
        length h = 40 \<and> \<not> isl (fst (headDS env h time_step))
        \<and> int (length p) = Cells * int (itemsize npT))"

text \<open>
  A yielded pair is the decoding of such a record: the grid is what the loop body makes
  of the cells, the date is the date of the header.
\<close>

definition decodes ::
  "('dt, 'df) library \<Rightarrow> string \<Rightarrow> int \<Rightarrow> dtype \<Rightarrow> num \<Rightarrow> ndarray
     \<Rightarrow> ndarray \<times> 'dt \<Rightarrow> byte list \<times> byte list \<Rightarrow> bool" where
  "decodes env time_step rgisType npT NoData cell_id y r \<longleftrightarrow>
     (case (y, r) of ((Data, Date), (h, p)) \<Rightarrow>
        (case frombuffer p npT of
           Inl e \<Rightarrow> False
         | Inr a \<Rightarrow> iter_ds_remap (cast32 env) rgisType NoData cell_id a = Inr Data)
        \<and> (case fst (headDS env h time_step) of
             Inl e \<Rightarrow> False
           | Inr (T, t, nd, d, c) \<Rightarrow> d = Date))"

text \<open>The identifiers of the grid are integers from 0 to the number of cells of a record.\<close>

definition ids_within :: "ndarray \<Rightarrow> int \<Rightarrow> bool" where
  "ids_within cell_id Cells \<longleftrightarrow>
     list_all (\<lambda>ix. case ix of IntVal i \<Rightarrow> 0 \<le> i \<and> i \<le> Cells | _ \<Rightarrow> False) (cells cell_id)"

subsection \<open>\<^verbatim>\<open>gdbc_to_ds_buffer\<close> and \<^verbatim>\<open>iter_gdbc\<close>: records from a conversion process\<close>

text \<open>\<^verbatim>\<open>str.split()\<close>: the words between runs of white space.\<close>

definition is_space :: "char \<Rightarrow> bool" where
  "is_space c \<longleftrightarrow> c \<in> set [CHR '' '', CHR 0x09, CHR 0x0A, CHR 0x0B, CHR 0x0C, CHR 0x0D]"

definition str_split :: "string \<Rightarrow> string list" where
  "str_split s =
     filter (\<lambda>w. w \<noteq> [])
       (foldr (\<lambda>c ws. if is_space c then [] # ws else (c # hd ws) # tl ws) s [[]])"

text \<open>The standard output of the process: its unread bytes, and whether it is closed.\<close>

record pipe =
  unread :: "byte list"
  closed :: bool

definition gdbc_to_ds_buffer :: "('dt, 'df) library \<Rightarrow> string \<Rightarrow> string \<Rightarrow> error + pipe" where
  "gdbc_to_ds_buffer env gdbc network =
     (let cmd = str_split (''rgis2ds --template '' @ network @ '' '' @ gdbc) in
      case Popen env cmd of
        Inl e \<Rightarrow> Inl e
      | Inr out \<Rightarrow> Inr \<lparr>unread = out, closed = False\<rparr>)"

text \<open>
  The generator object that a call of \<^verbatim>\<open>iter_gdbc\<close> creates. It has not run yet
  (\<open>Created\<close>), it stands at its \<^verbatim>\<open>yield\<close> inside the \<^verbatim>\<open>try\<close> with the rest of the inner
  \<^verbatim>\<open>iter_ds\<close> generator (\<open>Suspended\<close>), or it is over (\<open>Finished\<close>). \<open>pipe_of\<close> is its local
  \<^verbatim>\<open>file_buf\<close>, unbound until the body has run \<^verbatim>\<open>gdbc_to_ds_buffer\<close>.
\<close>

datatype 'a frame = Created | Suspended "'a gen" | Finished

record 'a gdbc_generator =
  frame :: "'a frame"
  pipe_of :: "pipe option"

datatype 'a outcome = Item 'a | StopIteration | Raised error

definition iter_gdbc :: "'a gdbc_generator" where
  "iter_gdbc = \<lparr>frame = Created, pipe_of = None\<rparr>"

definition set_unread :: "byte list \<Rightarrow> 'a gdbc_generator \<Rightarrow> 'a gdbc_generator" where
  "set_unread f g = g\<lparr>pipe_of := map_option (\<lambda>p. p\<lparr>unread := f\<rparr>) (pipe_of g)\<rparr>"

text \<open>
  Running the body up to its next \<^verbatim>\<open>yield\<close>: the inner generator is advanced; what it
  yields is yielded, its end is the end of the loop and of the body, and what it raises
  is no \<^verbatim>\<open>GeneratorExit\<close> and leaves the body.
\<close>

definition resume :: "'a gen \<Rightarrow> 'a gdbc_generator \<Rightarrow> 'a outcome \<times> 'a gdbc_generator" where
  "resume inner g =
     (case inner of
        Yield v f rest \<Rightarrow> (Item v, set_unread f (g\<lparr>frame := Suspended rest\<rparr>))
      | Return f \<Rightarrow> (StopIteration, set_unread f (g\<lparr>frame := Finished\<rparr>))
      | Raise e f \<Rightarrow> (Raised e, set_unread f (g\<lparr>frame := Finished\<rparr>)))"

text \<open>\<^verbatim>\<open>next(g)\<close> on the generator of \<^verbatim>\<open>iter_gdbc(gdbc, network, mask_id, year, time_step)\<close>.\<close>

definition iter_gdbc_next ::
  "('dt, 'df) library \<Rightarrow> string \<Rightarrow> string \<Rightarrow> ndarray \<Rightarrow> int \<Rightarrow> string
     \<Rightarrow> (ndarray \<times> 'dt) gdbc_generator
     \<Rightarrow> (ndarray \<times> 'dt) outcome \<times> (ndarray \<times> 'dt) gdbc_generator" where
  "iter_gdbc_next env gdbc network mask_id year time_step g =
     (case frame g of
        Created \<Rightarrow>
          (case gdbc_to_ds_buffer env gdbc network of
             Inl e \<Rightarrow> (Raised e, g\<lparr>frame := Finished\<rparr>)
           | Inr p \<Rightarrow>
               resume (iter_ds env (unread p) mask_id year time_step) (g\<lparr>pipe_of := Some p\<rparr>))
      | Suspended rest \<Rightarrow> resume rest g
      | Finished \<Rightarrow> (StopIteration, g))"

text \<open>
  \<^verbatim>\<open>g.close()\<close>, which Python also calls when the generator is dropped. At the \<^verbatim>\<open>yield\<close>
  it raises \<^verbatim>\<open>GeneratorExit\<close>, the \<^verbatim>\<open>except\<close> clause runs \<^verbatim>\<open>file_buf.close()\<close> and the body
  ends; a generator that has not run or is over is only marked as over. The first
  component is the exception that \<^verbatim>\<open>close\<close> raises, if any.
\<close>

definition iter_gdbc_close :: "'a gdbc_generator \<Rightarrow> error option \<times> 'a gdbc_generator" where
  "iter_gdbc_close g =
     (case frame g of
        Suspended rest \<Rightarrow>
          (None, g\<lparr>frame := Finished,
                   pipe_of := map_option (\<lambda>p. p\<lparr>closed := True\<rparr>) (pipe_of g)\<rparr>)
      | _ \<Rightarrow> (None, g\<lparr>frame := Finished\<rparr>))"

text \<open>
  The generator stands at its \<^verbatim>\<open>yield\<close>, with the pipe of the process in \<^verbatim>\<open>file_buf\<close>.
\<close>

definition started :: "'a gdbc_generator \<Rightarrow> bool" where
  "started g \<longleftrightarrow> (case frame g of Suspended rest \<Rightarrow> pipe_of g \<noteq> None | _ \<Rightarrow> False)"

text \<open>
  A consumer that asks for \<open>k\<close> records and stops at the first call of \<^verbatim>\<open>next\<close> that does
  not give one.
\<close>

fun consume ::
  "('g \<Rightarrow> 'a outcome \<times> 'g) \<Rightarrow> nat \<Rightarrow> 'g \<Rightarrow> 'a outcome list \<times> 'g" where
  "consume step 0 g = ([], g)"
| "consume step (Suc k) g =
     (case step g of
        (Item v, g') \<Rightarrow> (case consume step k g' of (os, g'') \<Rightarrow> (Item v # os, g''))
      | (out, g') \<Rightarrow> ([out], g'))"

subsection \<open>\<^verbatim>\<open>get_masks\<close> and \<^verbatim>\<open>sample_ds\<close>: tables per mask layer\<close>

text \<open>
  What the two functions change: the pandas tables they create and assign to (a table
  is referred to by its position in \<open>frames\<close>, so that two entries can hold the same
  table), the directories made, and the CSV files written, each with the table written
  to it. A path is the list of its components; the file \<^verbatim>\<open>OutputPath/variable_year.csv\<close>
  is given by the three parts of its name.
\<close>

record 'df state =
  frames :: "'df list"
  dirs :: "string list set"
  csvs :: "((string list \<times> string \<times> int) \<times> 'df) list"

type_synonym mask_entry = "string \<times> ndarray \<times> string \<times> int list \<times> string list \<times> nat"

definition upper_char :: "char \<Rightarrow> char" where
  "upper_char c =
     (case map_of (zip ''abcdefghijklmnopqrstuvwxyz'' ''ABCDEFGHIJKLMNOPQRSTUVWXYZ'') c of
        Some u \<Rightarrow> u
      | None \<Rightarrow> c)"

definition capitalize :: "string \<Rightarrow> string" where
  "capitalize s = (case s of [] \<Rightarrow> [] | c # cs \<Rightarrow> upper_char c # lower cs)"

text \<open>
  \<^verbatim>\<open>list(set(v[~np.isnan(v)].astype("int")))\<close> for the flattened mask \<open>v\<close>. Python leaves
  the order of the list open; the model takes the increasing one.
\<close>

definition mask_values :: "ndarray \<Rightarrow> int list" where
  "mask_values Mask = sort (remdups (map (to_int 64) (filter (\<lambda>v. v \<noteq> NaN) (cells Mask))))"

text \<open>\<^verbatim>\<open>p.mkdir(exist_ok=True, parents=True)\<close>: the directory and its ancestors exist.\<close>

definition mkdir :: "string list \<Rightarrow> 'df state \<Rightarrow> 'df state" where
  "mkdir p s = s\<lparr>dirs := dirs s \<union> set (map (\<lambda>n. take n p) [1..<Suc (length p)])\<rparr>"

text \<open>
  One pass through the loop body of \<^verbatim>\<open>get_masks\<close>, for the layer \<open>m\<close>. \<open>dfOut\<close> is the
  local variable of that name as the pass finds it: unbound before the first assignment,
  and otherwise still bound to what an earlier pass left in it. The pass ends with the
  tuple it appends to \<^verbatim>\<open>masks\<close>.
\<close>

definition get_masks_step ::
  "('dt, 'df) library \<Rightarrow> dataset \<Rightarrow> string list \<Rightarrow> int \<Rightarrow> string \<Rightarrow> string
     \<Rightarrow> nat option \<Rightarrow> 'df state \<Rightarrow> (error + mask_entry) \<times> 'df state" where
  "get_masks_step env mask_ds output_dir year time_step m dfOut s =
     (case mask_ds m of
        None \<Rightarrow> (Inl KeyError, s)
      | Some (Mask, attrs) \<Rightarrow>
          (case attrs ''Type'' of
             None \<Rightarrow> (Inl KeyError, s)
           | Some MaskType \<Rightarrow>
               (let MaskValues = mask_values Mask;
                    OutputPath = output_dir @ [m, capitalize time_step];
                    s = mkdir OutputPath s;
                    freq = (if time_step = ''daily'' then ''D''
                            else if time_step = ''monthly'' then ''MS''
                            else ''YS'');
                    (dfOut, s) =
                      (if MaskType = ''Polygon''
                       then (Some (length (frames s)),
                             s\<lparr>frames := frames s @ [DataFrame env MaskValues freq year]\<rparr>)
                       else if MaskType = ''Point''
                       then (Some (length (frames s)),
                             s\<lparr>frames := frames s @ [DataFrame env MaskValues freq year]\<rparr>)
                       else (dfOut, s))
                in case dfOut of
                     None \<Rightarrow> (Inl UnboundLocalError, s)
                   | Some df \<Rightarrow> (Inr (m, Mask, MaskType, MaskValues, OutputPath, df), s))))"

definition entry_dfOut :: "mask_entry \<Rightarrow> nat" where
  "entry_dfOut entry = (case entry of (m, Mask, MaskType, MaskValues, OutputPath, dfOut) \<Rightarrow> dfOut)"


text \<open>The loop of \<^verbatim>\<open>get_masks\<close> over the layers still to come, and the function.\<close>

fun get_masks_loop ::
  "('dt, 'df) library \<Rightarrow> dataset \<Rightarrow> string list \<Rightarrow> int \<Rightarrow> string \<Rightarrow> string list
     \<Rightarrow> mask_entry list \<Rightarrow> nat option \<Rightarrow> 'df state
     \<Rightarrow> (error + mask_entry list) \<times> 'df state" where
  "get_masks_loop env mask_ds output_dir year time_step [] masks dfOut s = (Inr masks, s)"
| "get_masks_loop env mask_ds output_dir year time_step (m # ms) masks dfOut s =
     (case get_masks_step env mask_ds output_dir year time_step m dfOut s of
        (Inl e, s) \<Rightarrow> (Inl e, s)
      | (Inr entry, s) \<Rightarrow>
          get_masks_loop env mask_ds output_dir year time_step ms (masks @ [entry])
            (Some (entry_dfOut entry)) s)"

definition get_masks ::
  "('dt, 'df) library \<Rightarrow> dataset \<Rightarrow> string list \<Rightarrow> string list \<Rightarrow> int \<Rightarrow> string
     \<Rightarrow> 'df state \<Rightarrow> (error + mask_entry list) \<times> 'df state" where
  "get_masks env mask_ds mask_layers output_dir year time_step s =
     get_masks_loop env mask_ds output_dir year time_step mask_layers [] None s"







subsection \<open>Example inputs\<close>

text \<open>
  Streams of one annual record of two cells, for the year 2001 and with the missing value
  -9999: a header of type code 5, 6 or 8 and the cells 10 and 20 as 16-bit integers, as
  32-bit integers and as 64-bit floats.
\<close>

definition example_header :: "byte \<Rightarrow> byte \<Rightarrow> byte list \<Rightarrow> byte list" where
  "example_header type_code items missing =
     [0, 0, type_code, 0, items, 0, 0, 0] @ missing @ [0x32, 0x30, 0x30, 0x31] @ replicate 20 0"

definition int16_stream :: "byte list" where
  "int16_stream = example_header 5 2 [0xF1, 0xD8, 0xFF, 0xFF, 0, 0, 0, 0] @ [10, 0, 20, 0]"

definition int32_stream :: "byte list" where
  "int32_stream =
     example_header 6 2 [0xF1, 0xD8, 0xFF, 0xFF, 0, 0, 0, 0] @ [10, 0, 0, 0, 20, 0, 0, 0]"

definition float64_stream :: "byte list" where
  "float64_stream =
     example_header 8 2 [0, 0, 0, 0, 0x80, 0x87, 0xC3, 0xC0]
       @ [0, 0, 0, 0, 0, 0, 0x24, 0x40] @ [0, 0, 0, 0, 0, 0, 0x34, 0x40]"

text \<open>The identifier grid \<^verbatim>\<open>[[0,1],[2,1]]\<close>, as the \<^verbatim>\<open>ID\<close> layer of a mask dataset holds it.\<close>

definition example_grid :: ndarray where
  "example_grid =
     \<lparr>dt = float64, shape = [2, 2], cells = [FloatVal 0, FloatVal 1, FloatVal 2, FloatVal 1]\<rparr>"

text \<open>
  A mask dataset with the identifier grid and two mask layers over it, one of type
  \<^verbatim>\<open>Point\<close> and one of a type that is neither \<^verbatim>\<open>Point\<close> nor \<^verbatim>\<open>Polygon\<close>.
\<close>

definition example_dataset :: dataset where
  "example_dataset =
     [''ID'' \<mapsto> (example_grid, Map.empty),
      ''Stations'' \<mapsto> (example_grid, [''Type'' \<mapsto> ''Point'']),
      ''Rivers'' \<mapsto> (example_grid, [''Type'' \<mapsto> ''Line''])]"

text \<open>
  An instance of the libraries: a formatted year from 1 to 31 is read as a month or a
  day of the year 2001 and any other string that is no ISO date is refused, every float
  rounds to itself, a date is kept as the
  bytes of its field, the process writes the stream of floats, the file
  \<^verbatim>\<open>/data/q_int16.ds\<close> holds the stream of 16-bit integers and every other file the stream
  of floats, every mask file holds the dataset above, and a table is its index with the
  number of assignments made to it.
\<close>

definition example_library :: "(byte list, int list \<times> nat) library" where
  "example_library =
     \<lparr>parse_year = (\<lambda>y. if 1 \<le> y \<and> y \<le> 31 then Some 2001 else None),
      cast32 = FloatVal,
      strptime = (\<lambda>b fmt. Inr b),
      Popen = (\<lambda>cmd. Inr float64_stream),
      bytes_of = (\<lambda>f handle. if handle = RawReader ''/data/q_int16.ds'' then int16_stream
                              else float64_stream),
      open_dataset = (\<lambda>p. Inr example_dataset),
      DataFrame = (\<lambda>ix freq y. (ix, 0)),
      set_polygon = (\<lambda>df d a m vs. Inr (fst df, Suc (snd df))),
      set_point = (\<lambda>df d a m. Inr (fst df, Suc (snd df)))\<rparr>"

text \<open>Nothing created and nothing written yet.\<close>

definition empty_state :: "'df state" where
  "empty_state = \<lparr>frames = [], dirs = {}, csvs = []\<rparr>"

section \<open>Properties\<close>

subsection \<open>Type codes\<close>

lemma npType_cases:
  "npType 5 = Inr int16" "npType 6 = Inr int32" "npType 7 = Inr float32"
  "npType 8 = Inr float64"
  by (simp_all add: npType_def)

text \<open>
  C6. The type mapper sends code 5 to the 16-bit signed integer type, 6 to the 32-bit
  signed integer type, 7 to the 32-bit float type and 8 to the 64-bit float type, and
  fails with the unknown-format error on every other code. It is a function of its
  argument alone: the result depends on nothing else and there is no state to change.
\<close>

theorem npType_total_on_codes:
  "npType 5 = Inr int16 \<and> npType 6 = Inr int32 \<and> npType 7 = Inr float32
   \<and> npType 8 = Inr float64
   \<and> (\<forall>n. n \<notin> {5, 6, 7, 8} \<longrightarrow> npType n = Inl (UnknownValueFormat n))"
  by (simp add: npType_def)

theorem npType_total_on_codes_witness:
  "(3::int) \<notin> {5, 6, 7, 8} \<and> npType 3 = Inl (UnknownValueFormat 3)"
  using npType_total_on_codes by simp

subsection \<open>Record counts\<close>

lemma lower_annual [simp]: "lower ''annual'' = ''annual''"
  by (simp add: lower_def lower_char_def)

lemma lower_monthly [simp]: "lower ''monthly'' = ''monthly''"
  by (simp add: lower_def lower_char_def)

lemma lower_daily [simp]: "lower ''daily'' = ''daily''"
  by (simp add: lower_def lower_char_def)

lemma is_leap_year_dvd:
  "is_leap_year y \<longleftrightarrow> 4 dvd y \<and> (\<not> 100 dvd y \<or> 400 dvd y)"
  by (simp add: is_leap_year_def dvd_eq_mod_eq_0)

lemma Period_four_digits: "1000 \<le> y \<Longrightarrow> y \<le> 9999 \<Longrightarrow> Period parse y = Inr y"
  by (simp add: Period_def)

lemma Period_error: "Period parse y = Inl e \<Longrightarrow> e = ValueError"
  by (auto simp: Period_def split: if_splits option.splits)

lemma n_records_daily_four_digits:
  assumes "1000 \<le> y" and "y \<le> 9999"
  shows "n_records parse y ''daily''
           = Inr (if 4 dvd y \<and> (\<not> 100 dvd y \<or> 400 dvd y) then 366 else 365)"
  using assms by (simp add: n_records_def Period_four_digits is_leap_year_dvd)

lemma n_records_year_4:
  "n_records (parse_year example_library) 4 ''daily'' = Inr 365"
  by (simp add: n_records_def Period_def example_library_def is_leap_year_def)

text \<open>
  C4, as stated, fails: the year 10000 is divisible by 400, but its string
  \<^verbatim>\<open>"10000-01-01"\<close> names no date that pandas can hold, and \<^verbatim>\<open>n_records\<close> raises where 366
  is expected. (The year 4 is a leap year too, and \<^verbatim>\<open>"4-01-01"\<close> read as the first of
  April 2001 gives 365, lemma \<open>n_records_year_4\<close>.)
\<close>

theorem n_records_every_year_counterexample:
  "4 dvd (10000::int) \<and> 400 dvd (10000::int)
   \<and> n_records (parse_year example_library) 10000 ''daily'' = Inl ValueError"
  by (simp add: n_records_def Period_def)

text \<open>
  C4, amended. For every integer year the record count is 1 for the annual and 12 for
  the monthly resolution; for the daily resolution and every year from 1000 to 9999 it
  is 366 exactly when the year is divisible by 4 and either not divisible by 100 or
  divisible by 400, and 365 otherwise.
\<close>

theorem n_records_policy:
  "n_records parse y ''annual'' = Inr 1 \<and> n_records parse y ''monthly'' = Inr 12
   \<and> (1000 \<le> y \<and> y \<le> 9999 \<longrightarrow>
        n_records parse y ''daily''
          = Inr (if 4 dvd y \<and> (\<not> 100 dvd y \<or> 400 dvd y) then 366 else 365)
        \<and> (n_records parse y ''daily'' = Inr 366
             \<longleftrightarrow> 4 dvd y \<and> (\<not> 100 dvd y \<or> 400 dvd y)))"
proof -
  have "n_records parse y ''annual'' = Inr 1" and "n_records parse y ''monthly'' = Inr 12"
    by (simp_all add: n_records_def)
  moreover have "n_records parse y ''daily'' = Inr 366
        \<longleftrightarrow> 4 dvd y \<and> (\<not> 100 dvd y \<or> 400 dvd y)"
    if "1000 \<le> y" and "y \<le> 9999"
    using that by (simp add: n_records_daily_four_digits)
  ultimately show ?thesis
    by (simp add: n_records_daily_four_digits)
qed

theorem n_records_policy_witness:
  "n_records (parse_year example_library) 1900 ''daily'' = Inr 365
   \<and> n_records (parse_year example_library) 2000 ''daily'' = Inr 366
   \<and> n_records (parse_year example_library) 2024 ''daily'' = Inr 366
   \<and> n_records (parse_year example_library) 2023 ''daily'' = Inr 365
   \<and> n_records (parse_year example_library) 2023 ''annual'' = Inr 1
   \<and> n_records (parse_year example_library) 2023 ''monthly'' = Inr 12"
  using n_records_policy [of "parse_year example_library" 1900]
    n_records_policy [of "parse_year example_library" 2000]
    n_records_policy [of "parse_year example_library" 2024]
    n_records_policy [of "parse_year example_library" 2023]
  by simp

text \<open>
  C10. The time step is matched without regard to case: for every year and every string
  whose lower-case form is one of the three resolutions, \<^verbatim>\<open>n_records\<close> gives for the string
  what it gives for its lower-case form, and the assertion on the time step does not
  reject the string. What it gives is a record count for the annual and the monthly
  resolution and, for the daily one, for every year from 1000 to 9999.
\<close>

theorem n_records_case_insensitive:
  assumes "lower s \<in> {''annual'', ''monthly'', ''daily''}"
  shows "n_records parse y s = n_records parse y (lower s)
       \<and> n_records parse y s \<noteq> Inl (AssertionError ''time_step must be annual monthly or daily'')
       \<and> (lower s \<noteq> ''daily'' \<or> (1000 \<le> y \<and> y \<le> 9999)
            \<longrightarrow> (\<exists>n. n_records parse y s = Inr n))"
proof -
  from assms consider "lower s = ''annual''" | "lower s = ''monthly''" | "lower s = ''daily''"
    by auto
  then show ?thesis
  proof cases
    case 1
    then show ?thesis by (simp add: n_records_def)
  next
    case 2
    then show ?thesis by (simp add: n_records_def)
  next
    case 3
    then show ?thesis
      by (cases "Period parse y")
        (auto simp: n_records_def Period_four_digits dest: Period_error)
  qed
qed

theorem n_records_case_insensitive_witness:
  "lower ''Daily'' \<in> {''annual'', ''monthly'', ''daily''}
   \<and> n_records (parse_year example_library) 2000 ''Daily''
       = n_records (parse_year example_library) 2000 ''daily''
   \<and> n_records (parse_year example_library) 2000 ''Daily'' = Inr 366"
proof -
  have l: "lower ''Daily'' = ''daily''"
    by (simp add: lower_def lower_char_def)
  then have h: "lower ''Daily'' \<in> {''annual'', ''monthly'', ''daily''}"
    by simp
  have "n_records (parse_year example_library) 2000 ''daily'' = Inr 366"
    by (simp add: n_records_daily_four_digits)
  with n_records_case_insensitive [OF h, of "parse_year example_library" 2000] h l
  show ?thesis
    by simp
qed

subsection \<open>The byte source of a path\<close>

lemma extension_after_stem:
  assumes "CHR ''.'' \<notin> set stem"
  shows "extension (stem @ ''.'' @ ext) = ext"
proof -
  from assms have "dropWhile (\<lambda>c. c \<noteq> CHR ''.'') (stem @ ''.'' @ ext) = ''.'' @ ext"
    by (induction stem) auto
  then show ?thesis
    by (simp add: extension_def)
qed

lemma get_true_datastream_path:
  "get_true_datastream (PathLike p) =
     (if extension (path_name p) \<in> {''gds.gz'', ''ds.gz''} then Inr (GzipReader p, False)
      else if extension (path_name p) \<in> {''gds'', ''ds''} then Inr (RawReader p, False)
      else Inl (AssertionError ''extension must be either gz or gds or ds''))"
  by (auto simp: get_true_datastream_def is_compressed_def Let_def)

text \<open>
  C5, as stated, fails: the name \<open>run.v2.ds\<close> ends in \<open>.ds\<close>, but the text after its first
  dot is \<open>v2.ds\<close>, and the assertion of \<^verbatim>\<open>_is_compressed\<close> rejects it.
\<close>

theorem get_true_datastream_trailing_counterexample:
  "suffix ''.ds'' ''/data/run.v2.ds''
   \<and> get_true_datastream (PathLike ''/data/run.v2.ds'')
       = Inl (AssertionError ''extension must be either gz or gds or ds'')"
proof
  have "''/data/run.v2.ds'' = ''/data/run.v2'' @ ''.ds''"
    by simp
  then show "suffix ''.ds'' ''/data/run.v2.ds''"
    by (rule suffixI)
next
  show "get_true_datastream (PathLike ''/data/run.v2.ds'')
          = Inl (AssertionError ''extension must be either gz or gds or ds'')"
    by (simp add: get_true_datastream_path path_name_def extension_def)
qed

text \<open>
  C5, amended. Given a path, the resolver decides from the text after the first dot of
  the file name. When the file name is a stem without a dot, then a dot, then \<open>ext\<close>:
  for \<open>ext\<close> one of \<open>ds.gz\<close>, \<open>gds.gz\<close> it returns the decompressing reader of the path, for
  \<open>ext\<close> one of \<open>ds\<close>, \<open>gds\<close> the raw binary reader of the path, and for every other \<open>ext\<close>
  it fails with the assertion error of \<^verbatim>\<open>_is_compressed\<close>.
\<close>

theorem get_true_datastream_first_dot:
  assumes "path_name p = stem @ ''.'' @ ext" and "CHR ''.'' \<notin> set stem"
  shows "(ext \<in> {''ds.gz'', ''gds.gz''}
            \<longrightarrow> get_true_datastream (PathLike p) = Inr (GzipReader p, False))
       \<and> (ext \<in> {''ds'', ''gds''}
            \<longrightarrow> get_true_datastream (PathLike p) = Inr (RawReader p, False))
       \<and> (ext \<notin> {''ds.gz'', ''gds.gz'', ''ds'', ''gds''}
            \<longrightarrow> get_true_datastream (PathLike p)
                = Inl (AssertionError ''extension must be either gz or gds or ds''))"
proof -
  from assms extension_after_stem [of stem ext] have "extension (path_name p) = ext"
    by simp
  then show ?thesis
    by (auto simp: get_true_datastream_path)
qed

theorem get_true_datastream_first_dot_witness:
  "path_name ''/data/run.ds.gz'' = ''run'' @ ''.'' @ ''ds.gz'' \<and> CHR ''.'' \<notin> set ''run''
   \<and> get_true_datastream (PathLike ''/data/run.ds.gz'')
       = Inr (GzipReader ''/data/run.ds.gz'', False)
   \<and> path_name ''/data/run.ds'' = ''run'' @ ''.'' @ ''ds''
   \<and> get_true_datastream (PathLike ''/data/run.ds'') = Inr (RawReader ''/data/run.ds'', False)
   \<and> path_name ''/data/run.csv'' = ''run'' @ ''.'' @ ''csv''
   \<and> get_true_datastream (PathLike ''/data/run.csv'')
       = Inl (AssertionError ''extension must be either gz or gds or ds'')"
proof -
  have n1: "path_name ''/data/run.ds.gz'' = ''run'' @ ''.'' @ ''ds.gz''"
    and n2: "path_name ''/data/run.ds'' = ''run'' @ ''.'' @ ''ds''"
    and n3: "path_name ''/data/run.csv'' = ''run'' @ ''.'' @ ''csv''"
    by (simp_all add: path_name_def)
  have d: "CHR ''.'' \<notin> set ''run''"
    by simp
  from get_true_datastream_first_dot [OF n1 d] get_true_datastream_first_dot [OF n2 d]
    get_true_datastream_first_dot [OF n3 d] n1 n2 n3 d
  show ?thesis
    by simp
qed

subsection \<open>Integer streams\<close>

lemma cast_NaN_int: "is_int_dtype t \<Longrightarrow> cast c32 t NaN = Inl ValueError"
  by (simp add: cast_def)

lemma setitem_mask_NaN_int:
  "is_int_dtype (dt a) \<Longrightarrow> setitem_mask c32 a msk NaN = Inl ValueError"
  by (simp add: setitem_mask_def cast_NaN_int)

lemma np_insert_dt: "np_insert c32 a v = Inr b \<Longrightarrow> dt b = dt a"
  by (auto simp: np_insert_def split: sum.splits)

lemma index_by_dt: "index_by a idx = Inr b \<Longrightarrow> dt b = dt a"
  by (auto simp: index_by_def split: sum.splits)

lemma reshape_dt: "reshape a shp = Inr b \<Longrightarrow> dt b = dt a"
  by (auto simp: reshape_def split: if_splits)

lemma iter_ds_remap_int_fails:
  assumes "is_int_dtype (dt Data)"
  shows "\<exists>e. iter_ds_remap c32 rgisType NoData cell_id Data = Inl e"
  using assms
  by (auto simp: iter_ds_remap_def Let_def setitem_mask_NaN_int
      dest!: np_insert_dt index_by_dt reshape_dt split: sum.splits)

lemma frombuffer_dt: "frombuffer buf t = Inr a \<Longrightarrow> dt a = t"
  by (auto simp: frombuffer_def split: if_splits)

lemma recordDS_dt: "recordDS f items t skip = (Inr a, f') \<Longrightarrow> dt a = t"
  by (auto simp: recordDS_def Let_def frombuffer_dt split: prod.splits)

lemma headDS_npType:
  "headDS env f ts = (Inr (T, t, nd, d, c), f') \<Longrightarrow> npType T = Inr t"
  by (auto simp: headDS_def Let_def split: prod.splits if_splits sum.splits)

lemma npType_int: "npType T = Inr t \<Longrightarrow> T \<le> 6 \<Longrightarrow> is_int_dtype t"
  by (auto simp: npType_def is_int_dtype_def split: if_splits)

lemma n_records_pos: "n_records parse y ts = Inr n \<Longrightarrow> 0 < n"
  by (auto simp: n_records_def Let_def split: if_splits sum.splits)

lemma iter_ds_loop_int_raises:
  assumes "is_int_dtype npT"
  shows "\<exists>e f. iter_ds_loop env ts cid T npT nd c (day # days) d buf = Raise e f"
proof (cases "if day \<noteq> 0
            then (case headDS env buf ts of
                    (Inl e, file_buf) \<Rightarrow> (Inl e, file_buf)
                  | (Inr (_, _, _, Date, _), file_buf) \<Rightarrow> (Inr Date, file_buf))
            else (Inr d, buf)")
  case (Pair r f1)
  show ?thesis
  proof (cases r)
    case (Inl e)
    with Pair show ?thesis by simp
  next
    case (Inr d')
    show ?thesis
    proof (cases "recordDS f1 c npT False")
      case rec: (Pair ra f2)
      show ?thesis
      proof (cases ra)
        case (Inl e)
        with Pair Inr rec show ?thesis by simp
      next
        case ok: (Inr Data)
        with rec have "dt Data = npT" by (simp add: recordDS_dt)
        with assms obtain e where "iter_ds_remap (cast32 env) T nd cid Data = Inl e"
          using iter_ds_remap_int_fails by blast
        with Pair Inr rec ok show ?thesis by simp
      qed
    qed
  qed
qed

lemma example_library_sel [simp]:
  "cast32 example_library = FloatVal"
  "strptime example_library = (\<lambda>b fmt. Inr b)"
  "Popen example_library = (\<lambda>cmd. Inr float64_stream)"
  "open_dataset example_library = (\<lambda>p. Inr example_dataset)"
  "DataFrame example_library = (\<lambda>ix freq y. (ix, 0))"
  by (simp_all add: example_library_def)

lemma cell_id_example_grid:
  "astype_int32 (nan_to_num example_grid)
     = \<lparr>dt = int32, shape = [2, 2], cells = [IntVal 0, IntVal 1, IntVal 2, IntVal 1]\<rparr>"
  by (simp add: astype_int32_def nan_to_num_def example_grid_def to_int_def trunc_def)

lemma headDS_int16_stream:
  "headDS example_library int16_stream ''annual''
     = (Inr (5, int16, IntVal (- 9999), [0x32, 0x30, 0x30, 0x31], 2), [10, 0, 20, 0])"
  by (simp add: headDS_def int16_stream_def example_header_def read_def le_int_def le_nat_def
      npType_def Let_def)

lemma headDS_int32_stream:
  "headDS example_library int32_stream ''annual''
     = (Inr (6, int32, IntVal (- 9999), [0x32, 0x30, 0x30, 0x31], 2),
        [10, 0, 0, 0, 20, 0, 0, 0])"
  by (simp add: headDS_def int32_stream_def example_header_def read_def le_int_def le_nat_def
      npType_def Let_def)

lemma headDS_float64_stream:
  "headDS example_library float64_stream ''annual''
     = (Inr (8, float64, FloatVal (- 9999), [0x32, 0x30, 0x30, 0x31], 2),
        [0, 0, 0, 0, 0, 0, 0x24, 0x40, 0, 0, 0, 0, 0, 0, 0x34, 0x40])"
  by (simp add: headDS_def float64_stream_def example_header_def read_def le_int_def le_nat_def
      npType_def ieee_def Let_def)

lemma recordDS_int16:
  "recordDS [10, 0, 20, 0] 2 int16 False
     = (Inr \<lparr>dt = int16, shape = [2], cells = [IntVal 10, IntVal 20]\<rparr>, [])"
  by (simp add: recordDS_def read_def frombuffer_def chunks_def decode_item_def le_int_def
      le_nat_def Let_def upt_rec)

lemma recordDS_int32:
  "recordDS [10, 0, 0, 0, 20, 0, 0, 0] 2 int32 False
     = (Inr \<lparr>dt = int32, shape = [2], cells = [IntVal 10, IntVal 20]\<rparr>, [])"
  by (simp add: recordDS_def read_def frombuffer_def chunks_def decode_item_def le_int_def
      le_nat_def Let_def upt_rec)

lemma recordDS_float64:
  "recordDS [0, 0, 0, 0, 0, 0, 0x24, 0x40, 0, 0, 0, 0, 0, 0, 0x34, 0x40] 2 float64 False
     = (Inr \<lparr>dt = float64, shape = [2], cells = [FloatVal 10, FloatVal 20]\<rparr>, [])"
  by (simp add: recordDS_def read_def frombuffer_def chunks_def decode_item_def ieee_def
      le_nat_def Let_def upt_rec)

lemmas remap_defs =
  iter_ds_remap_def np_insert_def cast_def is_int_dtype_def int_bits_def wrap_def index_by_def
  flatten_def item_at_def reshape_def setitem_mask_def np_eq_def num_eq_def as_float_def Let_def

lemma remap_int16:
  "iter_ds_remap FloatVal 5 (IntVal (- 9999))
     \<lparr>dt = int32, shape = [2, 2], cells = [IntVal 0, IntVal 1, IntVal 2, IntVal 1]\<rparr>
     \<lparr>dt = int16, shape = [2], cells = [IntVal 10, IntVal 20]\<rparr> = Inl ValueError"
  by (simp add: remap_defs)

lemma remap_int32:
  "iter_ds_remap FloatVal 6 (IntVal (- 9999))
     \<lparr>dt = int32, shape = [2, 2], cells = [IntVal 0, IntVal 1, IntVal 2, IntVal 1]\<rparr>
     \<lparr>dt = int32, shape = [2], cells = [IntVal 10, IntVal 20]\<rparr> = Inl ValueError"
  by (simp add: remap_defs)

lemma remap_float64:
  "iter_ds_remap FloatVal 8 (FloatVal (- 9999))
     \<lparr>dt = int32, shape = [2, 2], cells = [IntVal 0, IntVal 1, IntVal 2, IntVal 1]\<rparr>
     \<lparr>dt = float64, shape = [2], cells = [FloatVal 10, FloatVal 20]\<rparr>
     = Inr \<lparr>dt = float64, shape = [2, 2], cells = [NaN, FloatVal 10, FloatVal 20, FloatVal 10]\<rparr>"
  by (simp add: remap_defs)

lemma n_records_annual [simp]: "n_records parse y ''annual'' = Inr 1"
  by (simp add: n_records_def)

lemma iter_ds_int16_run:
  "iter_ds example_library int16_stream example_grid 2001 ''annual'' = Raise ValueError []"
  by (simp add: iter_ds_def headDS_int16_stream recordDS_int16 cell_id_example_grid remap_int16)

lemma iter_ds_int32_run:
  "iter_ds example_library int32_stream example_grid 2001 ''annual'' = Raise ValueError []"
  by (simp add: iter_ds_def headDS_int32_stream recordDS_int32 cell_id_example_grid remap_int32)

lemma iter_ds_float64_example:
  "iter_ds example_library float64_stream example_grid 2001 ''annual''
     = Yield (\<lparr>dt = float64, shape = [2, 2],
               cells = [NaN, FloatVal 10, FloatVal 20, FloatVal 10]\<rparr>,
              [0x32, 0x30, 0x30, 0x31]) [] (Return [])"
  by (simp add: iter_ds_def headDS_float64_stream recordDS_float64 cell_id_example_grid remap_float64)

text \<open>
  C1. For the type codes 5 and 6 the code departs from the specified steps. The array
  that \<^verbatim>\<open>Data.astype("float")\<close> returns is bound to \<^verbatim>\<open>_\<close> and dropped, so \<open>Data\<close> keeps its
  integer element type, and the store of not-a-number into it raises: whenever the first
  header of the stream parses with a type code of at most 6, the generator raises before
  it yields a record. No grid with not-a-number in place of the missing value is ever
  produced from an integer stream.
\<close>

theorem iter_ds_integer_type_never_yields:
  assumes "headDS env file_buf time_step = (Inr (rgisType, npT, NoData, Date, Cells), rest)"
    and "rgisType \<le> 6"
  shows "\<exists>e f. iter_ds env file_buf mask_id year time_step = Raise e f"
proof (cases "n_records (parse_year env) year time_step")
  case (Inl e)
  then show ?thesis by (simp add: iter_ds_def)
next
  case (Inr n)
  then have "0 < n" by (rule n_records_pos)
  then obtain days where days: "[0..<n] = 0 # days"
    by (cases n) (auto simp: upt_rec)
  from assms(1) have "npType rgisType = Inr npT"
    by (rule headDS_npType)
  with assms(2) have "is_int_dtype npT"
    by (rule npType_int [rotated -1])
  from iter_ds_loop_int_raises [OF this, where env = env and ts = time_step
      and cid = "astype_int32 (nan_to_num mask_id)" and T = rgisType and nd = NoData
      and c = Cells and day = 0 and days = days and d = Date and buf = rest]
  obtain e f where
    "iter_ds_loop env time_step (astype_int32 (nan_to_num mask_id)) rgisType npT NoData Cells
       (0 # days) Date rest = Raise e f"
    by blast
  with Inr assms(1) days show ?thesis
    by (simp add: iter_ds_def)
qed

theorem iter_ds_integer_type_never_yields_witness:
  "headDS example_library int16_stream ''annual''
     = (Inr (5, int16, IntVal (- 9999), [0x32, 0x30, 0x30, 0x31], 2), [10, 0, 20, 0])
   \<and> (5::int) \<le> 6
   \<and> (\<exists>e f. iter_ds example_library int16_stream example_grid 2001 ''annual'' = Raise e f)"
  using iter_ds_integer_type_never_yields [OF headDS_int16_stream, of example_grid 2001]
    headDS_int16_stream
  by simp

text \<open>
  C2. With the identifier grid \<^verbatim>\<open>[[0,1],[2,1]]\<close>, the missing value -9999 and the record
  \<^verbatim>\<open>[10, 20]\<close> held as 16-bit integers, the generator yields no grid at all: it ends with
  the \<^verbatim>\<open>ValueError\<close> of the store of not-a-number into an integer array. (The same record
  held as 64-bit floats gives the grid \<^verbatim>\<open>[[NaN,10],[20,10]]\<close>, lemma
  \<open>iter_ds_float64_example\<close>.)
\<close>

theorem iter_ds_example_int16:
  "yields (iter_ds example_library int16_stream example_grid 2001 ''annual'') = []
   \<and> ending (iter_ds example_library int16_stream example_grid 2001 ''annual'')
       = Some ValueError"
  by (simp add: iter_ds_int16_run)

theorem iter_ds_example_int16_witness:
  "yields (iter_ds example_library int16_stream example_grid 2001 ''annual'')
     \<noteq> [(\<lparr>dt = float64, shape = [2, 2],
             cells = [NaN, FloatVal 10, FloatVal 20, FloatVal 10]\<rparr>,
           [0x32, 0x30, 0x30, 0x31])]"
  using iter_ds_example_int16 by simp

text \<open>
  C3. For the year 2001 and the annual resolution one record is expected. On a stream
  of one well-formed record of 32-bit integers the generator yields none and ends with a
  \<^verbatim>\<open>ValueError\<close>, for the reason given at C1.
\<close>

theorem iter_ds_count_int32:
  "n_records (parse_year example_library) 2001 ''annual'' = Inr 1
   \<and> length (yields (iter_ds example_library int32_stream example_grid 2001 ''annual'')) = 0
   \<and> ending (iter_ds example_library int32_stream example_grid 2001 ''annual'')
       = Some ValueError"
  by (simp add: iter_ds_int32_run)

theorem iter_ds_count_int32_witness:
  "length (yields (iter_ds example_library int32_stream example_grid 2001 ''annual'')) < 1"
  using iter_ds_count_int32 by simp

subsection \<open>Float streams\<close>

text \<open>
  What the generator does on the streams it can decode. The grid of every record it
  yields is built as specified: the missing value in front of the cells of the record,
  looked up by the flattened identifier grid, in the shape of the grid, with not-a-number
  in place of every value equal to the missing value (\<open>iter_ds_remap_lookup\<close>,
  \<open>iter_ds_yields_sentinel\<close>). On a stream of type code 7 or 8 that holds the expected
  number of well-formed records it yields one pair per record and then ends; it reads
  the first header once, the cells of the first record right behind it, and a header
  and the cells for every later record, and nothing behind the last record
  (\<open>iter_ds_float_stream\<close>).
\<close>

lemma read_append: "read (a @ rest) (int (length a)) = (a, rest)"
  by (simp add: read_def)

lemma headDS_append:
  assumes "length hdr = 40"
  shows "headDS env (hdr @ rest) ts = (fst (headDS env hdr ts), rest)"
proof -
  from assms have "read (hdr @ rest) 40 = (hdr, rest)" and "read hdr 40 = (hdr, [])"
    by (simp_all add: read_def)
  then show ?thesis
    by (simp add: headDS_def Let_def assms split: sum.splits)
qed

lemma recordDS_append:
  assumes "int (length p) = c * int (itemsize t)"
  shows "recordDS (p @ rest) c t False = (frombuffer p t, rest)"
proof -
  from assms have "read (p @ rest) (c * int (itemsize t)) = (p, rest)"
    using read_append [of p rest] by simp
  then show ?thesis
    by (simp add: recordDS_def Let_def)
qed

lemma itemsize_pos: "0 < itemsize t"
  by (cases t) simp_all

lemma frombuffer_ok:
  assumes "int (length p) = c * int (itemsize t)"
  shows "\<exists>a. frombuffer p t = Inr a \<and> dt a = t \<and> int (length (cells a)) = c"
proof -
  from assms itemsize_pos [of t] have c: "0 \<le> c"
    by (metis of_nat_0_le_iff of_nat_0_less_iff zero_le_mult_iff not_less)
  then obtain n where n: "c = int n" by (metis nat_0_le)
  with assms have len: "length p = n * itemsize t"
    by (metis of_nat_mult of_nat_eq_iff)
  then have "length p mod itemsize t = 0" and "length p div itemsize t = n"
    using itemsize_pos [of t] by simp_all
  then show ?thesis
    by (simp add: frombuffer_def chunks_def n)
qed

lemma collect_all_Inr:
  assumes "\<forall>r \<in> set rs. \<not> isl r"
  shows "\<exists>xs. collect rs = Inr xs \<and> length xs = length rs"
  using assms
proof (induction rs)
  case Nil
  then show ?case by simp
next
  case (Cons r rs)
  then obtain xs where "collect rs = Inr xs" "length xs = length rs" by auto
  moreover from Cons.prems obtain x where "r = Inr x" by (cases r) auto
  ultimately show ?case by simp
qed

lemma item_at_ok:
  assumes "0 \<le> i" and "i < int (length xs)"
  shows "item_at xs (IntVal i) = Inr (xs ! nat i)"
  using assms by (simp add: item_at_def)

lemma cast_NaN_float: "\<not> is_int_dtype t \<Longrightarrow> cast c32 t NaN = Inr NaN"
  by (simp add: cast_def to_float32_def as_float_def)

lemma cast_float_ok: "\<not> is_int_dtype t \<Longrightarrow> \<exists>v. cast c32 t x = Inr v"
  by (simp add: cast_def)

lemma iter_ds_remap_float_ok:
  assumes fl: "\<not> is_int_dtype (dt Data)"
    and ids: "ids_within cell_id (int (length (cells Data)))"
    and shp: "prod_list (shape cell_id) = length (cells cell_id)"
  shows "\<exists>g. iter_ds_remap c32 rgisType NoData cell_id Data = Inr g"
proof -
  from fl obtain v where v: "cast c32 (dt Data) NoData = Inr v"
    using cast_float_ok by blast
  let ?D1 = "\<lparr>dt = dt Data, shape = [Suc (length (cells Data))], cells = v # cells Data\<rparr>"
  from v have ins: "np_insert c32 Data NoData = Inr ?D1"
    by (simp add: np_insert_def)
  have "\<forall>r \<in> set (map (item_at (v # cells Data)) (cells cell_id)). \<not> isl r"
  proof
    fix r assume "r \<in> set (map (item_at (v # cells Data)) (cells cell_id))"
    then obtain ix where ix: "ix \<in> set (cells cell_id)" and r: "r = item_at (v # cells Data) ix"
      by auto
    from ids ix have
      "case ix of IntVal i \<Rightarrow> 0 \<le> i \<and> i \<le> int (length (cells Data)) | _ \<Rightarrow> False"
      by (simp add: ids_within_def list_all_iff)
    then obtain i where "ix = IntVal i" "0 \<le> i" "i \<le> int (length (cells Data))"
      by (cases ix) auto
    with r show "\<not> isl r" by (simp add: item_at_def)
  qed
  then obtain cs where cs: "collect (map (item_at (v # cells Data)) (cells cell_id)) = Inr cs"
    and len: "length cs = length (cells cell_id)"
    using collect_all_Inr by fastforce
  let ?D2 = "\<lparr>dt = dt Data, shape = shape (flatten cell_id), cells = cs\<rparr>"
  from cs have ix: "index_by ?D1 (flatten cell_id) = Inr ?D2"
    by (simp add: index_by_def flatten_def)
  from len shp have rs: "reshape ?D2 (shape cell_id) = Inr (?D2\<lparr>shape := shape cell_id\<rparr>)"
    by (simp add: reshape_def)
  from fl have "\<exists>g. setitem_mask c32 (?D2\<lparr>shape := shape cell_id\<rparr>)
      (np_eq c32 (?D2\<lparr>shape := shape cell_id\<rparr>) NoData) NaN = Inr g"
    by (simp add: setitem_mask_def cast_NaN_float)
  with ins ix rs show ?thesis
    by (simp add: iter_ds_remap_def Let_def)
qed


lemma zip_map_same: "map (\<lambda>(b, x). F b x) (zip (map f xs) xs) = map (\<lambda>x. F (f x) x) xs"
  by (induction xs) simp_all

lemma iter_ds_remap_lookup:
  assumes "iter_ds_remap c32 rgisType NoData cell_id Data = Inr g"
  shows "\<exists>v raw. cast c32 (dt Data) NoData = Inr v
           \<and> collect (map (item_at (v # cells Data)) (cells cell_id)) = Inr raw
           \<and> dt g = dt Data \<and> \<not> is_int_dtype (dt Data) \<and> shape g = shape cell_id
           \<and> cells g
               = map (\<lambda>x. if num_eq x (if dt Data = float32 then to_float32 c32 NoData else NoData)
                           then NaN else x) raw"
proof -
  from assms obtain v where v: "cast c32 (dt Data) NoData = Inr v"
    by (auto simp: iter_ds_remap_def np_insert_def split: sum.splits)
  let ?D1 = "\<lparr>dt = dt Data, shape = [Suc (length (cells Data))], cells = v # cells Data\<rparr>"
  from v have ins: "np_insert c32 Data NoData = Inr ?D1"
    by (simp add: np_insert_def)
  with assms obtain raw where raw: "collect (map (item_at (v # cells Data)) (cells cell_id)) = Inr raw"
    by (auto simp: iter_ds_remap_def index_by_def flatten_def split: sum.splits)
  let ?D2 = "\<lparr>dt = dt Data, shape = shape (flatten cell_id), cells = raw\<rparr>"
  from raw have ix: "index_by ?D1 (flatten cell_id) = Inr ?D2"
    by (simp add: index_by_def flatten_def)
  let ?D3 = "?D2\<lparr>shape := shape cell_id\<rparr>"
  from assms ins ix have rs: "reshape ?D2 (shape cell_id) = Inr ?D3"
    by (auto simp: iter_ds_remap_def reshape_def split: sum.splits if_splits)
  with assms ins ix have st: "setitem_mask c32 ?D3 (np_eq c32 ?D3 NoData) NaN = Inr g"
    by (simp add: iter_ds_remap_def Let_def)
  have fl: "\<not> is_int_dtype (dt Data)"
  proof
    assume "is_int_dtype (dt Data)"
    then have "setitem_mask c32 ?D3 (np_eq c32 ?D3 NoData) NaN = Inl ValueError"
      by (simp add: setitem_mask_NaN_int)
    with st show False by simp
  qed
  with st have "g = ?D3\<lparr>cells := map (\<lambda>(b, x). if b then NaN else x)
                                    (zip (np_eq c32 ?D3 NoData) raw)\<rparr>"
    by (simp add: setitem_mask_def cast_NaN_float)
  then have "dt g = dt Data" "shape g = shape cell_id"
    "cells g = map (\<lambda>x. if num_eq x (if dt Data = float32 then to_float32 c32 NoData else NoData)
                           then NaN else x) raw"
    by (simp_all add: np_eq_def zip_map_same)
  with v raw fl show ?thesis by blast
qed

lemma num_eq_NaN [simp]: "\<not> num_eq NaN y"
  by (simp add: num_eq_def)

lemma iter_ds_remap_sentinel:
  assumes "iter_ds_remap c32 rgisType NoData cell_id Data = Inr g"
  shows "True \<notin> set (np_eq c32 g NoData)"
proof -
  from iter_ds_remap_lookup [OF assms] obtain raw where
    "dt g = dt Data"
    "cells g = map (\<lambda>x. if num_eq x (if dt Data = float32 then to_float32 c32 NoData else NoData)
                           then NaN else x) raw"
    by blast
  then show ?thesis
    by (auto simp: np_eq_def)
qed

lemma iter_ds_loop_first:
  assumes fl: "\<not> is_int_dtype npT"
    and ids: "ids_within cell_id Cells"
    and shp: "prod_list (shape cell_id) = length (cells cell_id)"
    and len: "int (length p) = Cells * int (itemsize npT)"
  shows "\<exists>a g. frombuffer p npT = Inr a
           \<and> iter_ds_remap (cast32 env) rgisType NoData cell_id a = Inr g
           \<and> iter_ds_loop env ts cell_id rgisType npT NoData Cells (0 # days) Date (p @ rest)
               = Yield (g, Date) rest
                   (iter_ds_loop env ts cell_id rgisType npT NoData Cells days Date rest)"
proof -
  from frombuffer_ok [OF len] obtain a where a: "frombuffer p npT = Inr a" "dt a = npT"
    "int (length (cells a)) = Cells"
    by blast
  with fl ids shp obtain g where g: "iter_ds_remap (cast32 env) rgisType NoData cell_id a = Inr g"
    using iter_ds_remap_float_ok [of a cell_id "cast32 env" rgisType NoData] by auto
  from a g show ?thesis
    by (simp add: recordDS_append [OF len])
qed

lemma iter_ds_loop_next:
  assumes fl: "\<not> is_int_dtype npT"
    and ids: "ids_within cell_id Cells"
    and shp: "prod_list (shape cell_id) = length (cells cell_id)"
    and ok: "record_ok env ts npT Cells (h, p)"
    and day: "day \<noteq> 0"
  shows "\<exists>g d. decodes env ts rgisType npT NoData cell_id (g, d) (h, p)
           \<and> iter_ds_loop env ts cell_id rgisType npT NoData Cells (day # days) Date
                 (h @ p @ rest)
               = Yield (g, d) rest
                   (iter_ds_loop env ts cell_id rgisType npT NoData Cells days d rest)"
proof -
  from ok have h: "length h = 40" and len: "int (length p) = Cells * int (itemsize npT)"
    and "\<not> isl (fst (headDS env h ts))"
    by (simp_all add: record_ok_def)
  then obtain T' t' nd' d c' where x: "fst (headDS env h ts) = Inr (T', t', nd', d, c')"
    by (cases "fst (headDS env h ts)") auto
  with h have hd: "headDS env (h @ p @ rest) ts = (Inr (T', t', nd', d, c'), p @ rest)"
    by (simp add: headDS_append)
  from frombuffer_ok [OF len] obtain a where a: "frombuffer p npT = Inr a" "dt a = npT"
    "int (length (cells a)) = Cells"
    by blast
  with fl ids shp obtain g where g: "iter_ds_remap (cast32 env) rgisType NoData cell_id a = Inr g"
    using iter_ds_remap_float_ok [of a cell_id "cast32 env" rgisType NoData] by auto
  from a g x have "decodes env ts rgisType npT NoData cell_id (g, d) (h, p)"
    by (simp add: decodes_def)
  moreover from a g hd day have
    "iter_ds_loop env ts cell_id rgisType npT NoData Cells (day # days) Date (h @ p @ rest)
       = Yield (g, d) rest (iter_ds_loop env ts cell_id rgisType npT NoData Cells days d rest)"
    by (simp add: recordDS_append [OF len])
  ultimately show ?thesis by blast
qed

lemma iter_ds_loop_rest:
  assumes fl: "\<not> is_int_dtype npT"
    and ids: "ids_within cell_id Cells"
    and shp: "prod_list (shape cell_id) = length (cells cell_id)"
  shows "0 \<notin> set days \<Longrightarrow> length recs = length days
     \<Longrightarrow> \<forall>r \<in> set recs. record_ok env ts npT Cells r
     \<Longrightarrow> list_all2 (decodes env ts rgisType npT NoData cell_id)
           (yields (iter_ds_loop env ts cell_id rgisType npT NoData Cells days Date
                      (concat (map (\<lambda>(h, p). h @ p) recs) @ tail))) recs
         \<and> ending (iter_ds_loop env ts cell_id rgisType npT NoData Cells days Date
                      (concat (map (\<lambda>(h, p). h @ p) recs) @ tail)) = None
         \<and> unread_at_end (iter_ds_loop env ts cell_id rgisType npT NoData Cells days Date
                      (concat (map (\<lambda>(h, p). h @ p) recs) @ tail)) = tail"
proof (induction days arbitrary: recs Date)
  case Nil
  then show ?case by simp
next
  case (Cons day days)
  from Cons.prems(2) obtain h p recs' where recs: "recs = (h, p) # recs'"
    by (cases recs) auto
  let ?rest = "concat (map (\<lambda>(h, p). h @ p) recs') @ tail"
  from Cons.prems recs have ok: "record_ok env ts npT Cells (h, p)" and day: "day \<noteq> 0"
    by auto
  from iter_ds_loop_next [OF fl ids shp ok day, of rgisType NoData days Date ?rest]
  obtain g d where dec: "decodes env ts rgisType npT NoData cell_id (g, d) (h, p)"
    and step: "iter_ds_loop env ts cell_id rgisType npT NoData Cells (day # days) Date
                 (h @ p @ ?rest)
               = Yield (g, d) ?rest
                   (iter_ds_loop env ts cell_id rgisType npT NoData Cells days d ?rest)"
    by blast
  from Cons.prems recs have "0 \<notin> set days" "length recs' = length days"
    "\<forall>r \<in> set recs'. record_ok env ts npT Cells r"
    by auto
  from Cons.IH [OF this, of d] dec step recs show ?case
    by simp
qed


lemma iter_ds_loop_yields_remap:
  "(g, d) \<in> set (yields (iter_ds_loop env ts cell_id rgisType npT NoData Cells days Date buf))
     \<Longrightarrow> \<exists>a. iter_ds_remap (cast32 env) rgisType NoData cell_id a = Inr g"
proof (induction days arbitrary: Date buf)
  case Nil
  then show ?case by simp
next
  case (Cons day days)
  from Cons.prems show ?case
    by (auto split: if_splits prod.splits sum.splits dest: Cons.IH)
qed

lemma iter_ds_yields_sentinel:
  assumes "headDS env file_buf ts = (Inr (rgisType, npT, NoData, Date, Cells), rest)"
    and "(g, d) \<in> set (yields (iter_ds env file_buf mask_id year ts))"
  shows "True \<notin> set (np_eq (cast32 env) g NoData)"
proof -
  from assms obtain a where
    "iter_ds_remap (cast32 env) rgisType NoData (astype_int32 (nan_to_num mask_id)) a = Inr g"
    by (auto simp: iter_ds_def split: sum.splits dest: iter_ds_loop_yields_remap)
  then show ?thesis by (rule iter_ds_remap_sentinel)
qed

lemma npType_float: "npType T = Inr t \<Longrightarrow> 6 < T \<Longrightarrow> \<not> is_int_dtype t"
  by (auto simp: npType_def is_int_dtype_def split: if_splits)

lemma fst_headDS_npType:
  "fst (headDS env h ts) = Inr (T, t, nd, d, c) \<Longrightarrow> npType T = Inr t"
  by (cases "headDS env h ts") (auto dest: headDS_npType)

lemma astype_int32_shape [simp]:
  "shape (astype_int32 (nan_to_num a)) = shape a"
  "length (cells (astype_int32 (nan_to_num a))) = length (cells a)"
  by (simp_all add: astype_int32_def nan_to_num_def)

lemma iter_ds_float_stream:
  assumes n: "n_records (parse_year env) year ts = Inr n"
    and hl: "length hdr = 40"
    and hd: "fst (headDS env hdr ts) = Inr (rgisType, npT, NoData, Date, Cells)"
    and fl: "6 < rgisType"
    and pl: "int (length payload) = Cells * int (itemsize npT)"
    and rl: "length recs = n - 1"
    and ok: "\<forall>r \<in> set recs. record_ok env ts npT Cells r"
    and ids: "ids_within (astype_int32 (nan_to_num mask_id)) Cells"
    and shp: "prod_list (shape mask_id) = length (cells mask_id)"
  shows "list_all2 (decodes env ts rgisType npT NoData (astype_int32 (nan_to_num mask_id)))
           (yields (iter_ds env (hdr @ payload @ concat (map (\<lambda>(h, p). h @ p) recs) @ tail)
                      mask_id year ts))
           ((hdr, payload) # recs)
       \<and> ending (iter_ds env (hdr @ payload @ concat (map (\<lambda>(h, p). h @ p) recs) @ tail)
                      mask_id year ts) = None
       \<and> unread_at_end (iter_ds env (hdr @ payload @ concat (map (\<lambda>(h, p). h @ p) recs) @ tail)
                      mask_id year ts) = tail"
proof -
  let ?cid = "astype_int32 (nan_to_num mask_id)"
  let ?rest = "concat (map (\<lambda>(h, p). h @ p) recs) @ tail"
  from hd have "npType rgisType = Inr npT"
    by (rule fst_headDS_npType)
  then have nf: "\<not> is_int_dtype npT"
    using fl by (rule npType_float)
  from shp have shp': "prod_list (shape ?cid) = length (cells ?cid)"
    by simp
  from n have "0 < n" by (rule n_records_pos)
  then have days: "[0..<n] = 0 # [1..<n]"
    by (simp add: upt_conv_Cons)
  have nz: "0 \<notin> set [1..<n]" and dl: "length recs = length [1..<n]"
    using rl by simp_all
  from hl hd have head: "headDS env (hdr @ payload @ ?rest) ts
      = (Inr (rgisType, npT, NoData, Date, Cells), payload @ ?rest)"
    by (simp add: headDS_append)
  from iter_ds_loop_first [OF nf ids shp' pl, of env rgisType NoData ts "[1..<n]" Date ?rest]
  obtain a g where a: "frombuffer payload npT = Inr a"
    and g: "iter_ds_remap (cast32 env) rgisType NoData ?cid a = Inr g"
    and first: "iter_ds_loop env ts ?cid rgisType npT NoData Cells (0 # [1..<n]) Date
                  (payload @ ?rest)
                = Yield (g, Date) ?rest
                    (iter_ds_loop env ts ?cid rgisType npT NoData Cells [1..<n] Date ?rest)"
    by blast
  from a g hd have dec: "decodes env ts rgisType npT NoData ?cid (g, Date) (hdr, payload)"
    by (simp add: decodes_def)
  from n head days first have run:
    "iter_ds env (hdr @ payload @ ?rest) mask_id year ts
       = Yield (g, Date) ?rest
           (iter_ds_loop env ts ?cid rgisType npT NoData Cells [1..<n] Date ?rest)"
    by (simp add: iter_ds_def)
  from iter_ds_loop_rest [OF nf ids shp' nz dl ok, of rgisType NoData Date tail] dec run
  show ?thesis
    by simp
qed

text \<open>The stream of one record of 64-bit floats is such a stream.\<close>

lemma iter_ds_float_stream_example:
  "list_all2 (decodes example_library ''annual'' 8 float64 (FloatVal (- 9999))
                (astype_int32 (nan_to_num example_grid)))
     (yields (iter_ds example_library float64_stream example_grid 2001 ''annual''))
     [(example_header 8 2 [0, 0, 0, 0, 0x80, 0x87, 0xC3, 0xC0],
       [0, 0, 0, 0, 0, 0, 0x24, 0x40, 0, 0, 0, 0, 0, 0, 0x34, 0x40])]
   \<and> ending (iter_ds example_library float64_stream example_grid 2001 ''annual'') = None
   \<and> unread_at_end (iter_ds example_library float64_stream example_grid 2001 ''annual'') = []"
proof -
  let ?h = "example_header 8 2 [0, 0, 0, 0, 0x80, 0x87, 0xC3, 0xC0]"
  let ?p = "[0, 0, 0, 0, 0, 0, 0x24, 0x40, 0, 0, 0, 0, 0, 0, 0x34, 0x40] :: byte list"
  have n: "n_records (parse_year example_library) 2001 ''annual'' = Inr 1"
    by simp
  have hl: "length ?h = 40"
    by (simp add: example_header_def)
  have hd: "fst (headDS example_library ?h ''annual'')
              = Inr (8, float64, FloatVal (- 9999), [0x32, 0x30, 0x30, 0x31], 2)"
    by (simp add: headDS_def example_header_def read_def le_int_def le_nat_def npType_def
        ieee_def Let_def)
  have pl: "int (length ?p) = 2 * int (itemsize float64)"
    by simp
  have ids: "ids_within (astype_int32 (nan_to_num example_grid)) 2"
    by (simp add: cell_id_example_grid ids_within_def)
  have shp: "prod_list (shape example_grid) = length (cells example_grid)"
    by (simp add: example_grid_def)
  have s: "float64_stream = ?h @ ?p @ concat (map (\<lambda>(h, p). h @ p) []) @ []"
    by (simp add: float64_stream_def)
  from iter_ds_float_stream [OF n hl hd _ pl _ _ ids shp, of "[]" "[]"]
  show ?thesis
    by (simp add: s)
qed

subsection \<open>Mask layers of an unknown type\<close>

lemma mask_values_example_grid: "mask_values example_grid = [0, 1, 2]"
  by (simp add: mask_values_def example_grid_def to_int_def trunc_def)

lemma mkdir_frames [simp]: "frames (mkdir p s) = frames s"
  by (simp add: mkdir_def)

lemma capitalize_annual: "capitalize ''annual'' = ''Annual''"
  by (simp add: capitalize_def upper_char_def lower_def lower_char_def)

lemma step_Stations:
  "get_masks_step example_library example_dataset [''out''] 2001 ''annual'' ''Stations'' None
     empty_state
   = (Inr (''Stations'', example_grid, ''Point'', [0, 1, 2], [''out'', ''Stations'', ''Annual''], 0),
      (mkdir [''out'', ''Stations'', ''Annual''] empty_state)\<lparr>frames := [([0, 1, 2], 0)]\<rparr>)"
  by (simp add: get_masks_step_def example_dataset_def mask_values_example_grid Let_def
      capitalize_annual empty_state_def)

lemma step_Rivers_first:
  "fst (get_masks example_library example_dataset [''Rivers''] [''out''] 2001 ''annual''
     empty_state) = Inl UnboundLocalError"
  by (simp add: get_masks_def get_masks_step_def example_dataset_def Let_def)

text \<open>
  C9. \<^verbatim>\<open>get_masks\<close> has no check of the type of a layer. In a pass of its loop that finds
  \<open>dfOut\<close> bound, a layer whose \<open>Type\<close> is neither \<^verbatim>\<open>Polygon\<close> nor \<^verbatim>\<open>Point\<close> does not fail:
  the pass appends the layer with the table that the pass before it made.
\<close>

theorem get_masks_step_unknown_type:
  assumes "mask_ds m = Some (Mask, attrs)" and "attrs ''Type'' = Some MaskType"
    and "MaskType \<noteq> ''Polygon''" and "MaskType \<noteq> ''Point''"
  shows "get_masks_step env mask_ds output_dir year time_step m (Some df) s
           = (Inr (m, Mask, MaskType, mask_values Mask, output_dir @ [m, capitalize time_step], df),
              mkdir (output_dir @ [m, capitalize time_step]) s)"
  using assms by (simp add: get_masks_step_def Let_def)

theorem get_masks_step_unknown_type_witness:
  "example_dataset ''Rivers'' = Some (example_grid, [''Type'' \<mapsto> ''Line''])
   \<and> ''Line'' \<noteq> ''Polygon'' \<and> ''Line'' \<noteq> ''Point''
   \<and> fst (get_masks example_library example_dataset [''Stations'', ''Rivers''] [''out''] 2001
          ''annual'' empty_state)
   = Inr [(''Stations'', example_grid, ''Point'', [0, 1, 2], [''out'', ''Stations'', ''Annual''], 0),
          (''Rivers'', example_grid, ''Line'', [0, 1, 2], [''out'', ''Rivers'', ''Annual''], 0)]"
proof -
  have ds: "example_dataset ''Rivers'' = Some (example_grid, [''Type'' \<mapsto> ''Line''])"
    by (simp add: example_dataset_def)
  have ty: "[''Type'' \<mapsto> ''Line''] ''Type'' = Some ''Line''"
    by simp
  from ds ty get_masks_step_unknown_type [where mask_ds = example_dataset and m = "''Rivers''"
      and Mask = example_grid and attrs = "[''Type'' \<mapsto> ''Line'']" and MaskType = "''Line''"
      and env = example_library and output_dir = "[''out'']" and year = 2001
      and time_step = "''annual''" and df = 0]
  have "get_masks_step example_library example_dataset [''out''] 2001 ''annual'' ''Rivers''
          (Some 0) ((mkdir [''out'', ''Stations'', ''Annual''] empty_state)\<lparr>frames := [([0, 1, 2], 0)]\<rparr>)
        = (Inr (''Rivers'', example_grid, ''Line'', [0, 1, 2], [''out'', ''Rivers'', ''Annual''], 0),
           mkdir [''out'', ''Rivers'', ''Annual'']
             ((mkdir [''out'', ''Stations'', ''Annual''] empty_state)\<lparr>frames := [([0, 1, 2], 0)]\<rparr>))"
    by (simp add: mask_values_example_grid capitalize_annual)
  with ds show ?thesis
    by (simp add: get_masks_def step_Stations entry_dfOut_def)
qed

subsection \<open>Closing the pipe of the conversion process\<close>

lemma started_iff:
  "started g \<longleftrightarrow> (\<exists>rest q. frame g = Suspended rest \<and> pipe_of g = Some q)"
  by (cases "frame g") (auto simp: started_def)

lemma resume_Item:
  assumes "resume inner g = (Item v, g')" and "pipe_of g = Some p"
  shows "\<exists>rest q. frame g' = Suspended rest \<and> pipe_of g' = Some q"
  using assms by (cases inner) (auto simp: resume_def set_unread_def)

lemma iter_gdbc_next_Item:
  assumes "iter_gdbc_next env gdbc network mask_id year time_step g = (Item v, g')"
    and "frame g = Created \<or> started g"
  shows "started g'"
proof (cases "frame g")
  case Created
  show ?thesis
  proof (cases "gdbc_to_ds_buffer env gdbc network")
    case (Inl e)
    with assms(1) Created show ?thesis by (simp add: iter_gdbc_next_def)
  next
    case (Inr p)
    with assms(1) Created have
      "resume (iter_ds env (unread p) mask_id year time_step) (g\<lparr>pipe_of := Some p\<rparr>) = (Item v, g')"
      by (simp add: iter_gdbc_next_def)
    from resume_Item [OF this] show ?thesis by (simp add: started_iff)
  qed
next
  case (Suspended rest)
  with assms(2) obtain q where q: "pipe_of g = Some q" by (auto simp: started_iff)
  from assms(1) Suspended have "resume rest g = (Item v, g')"
    by (simp add: iter_gdbc_next_def)
  from resume_Item [OF this q] show ?thesis by (simp add: started_iff)
next
  case Finished
  with assms(1) show ?thesis by (simp add: iter_gdbc_next_def)
qed

lemma consume_all_items:
  assumes "consume (iter_gdbc_next env gdbc network mask_id year time_step) k g = (outs, g')"
    and "frame g = Created \<or> started g" and "0 < k" and "\<exists>v. last outs = Item v"
  shows "started g'"
  using assms
proof (induction k arbitrary: g outs g')
  case 0
  then show ?case by simp
next
  case (Suc k)
  let ?step = "iter_gdbc_next env gdbc network mask_id year time_step"
  obtain out g1 where step: "?step g = (out, g1)" by (cases "?step g")
  show ?case
  proof (cases out)
    case (Item v)
    with step Suc.prems(2) have g1: "started g1" by (auto dest: iter_gdbc_next_Item)
    obtain os g2 where rest: "consume ?step k g1 = (os, g2)" by (cases "consume ?step k g1")
    with Suc.prems(1) step Item have outs: "outs = Item v # os" and g': "g' = g2" by auto
    show ?thesis
    proof (cases k)
      case 0
      with rest g1 g' show ?thesis by simp
    next
      case (Suc j)
      with rest have "os \<noteq> []" by (auto split: prod.splits outcome.splits)
      with outs Suc.prems(4) have "\<exists>v. last os = Item v" by simp
      with Suc.IH [OF rest] g1 Suc g' show ?thesis by simp
    qed
  next
    case StopIteration
    with Suc.prems(1,4) step show ?thesis by auto
  next
    case (Raised e)
    with Suc.prems(1,4) step show ?thesis by auto
  qed
qed

lemma iter_gdbc_close_no_error: "fst (iter_gdbc_close g) = None"
  by (cases "frame g") (simp_all add: iter_gdbc_close_def)

lemma iter_gdbc_close_unstarted:
  "iter_gdbc_close iter_gdbc = (None, \<lparr>frame = Finished, pipe_of = None\<rparr>)"
  by (simp add: iter_gdbc_close_def iter_gdbc_def)

lemma gdbc_example:
  "consume (iter_gdbc_next example_library ''q.gdbc'' ''net.gdbn'' example_grid 2001 ''annual'')
     (Suc 0) iter_gdbc
   = ([Item (\<lparr>dt = float64, shape = [2, 2],
               cells = [NaN, FloatVal 10, FloatVal 20, FloatVal 10]\<rparr>,
              [0x32, 0x30, 0x30, 0x31])],
      \<lparr>frame = Suspended (Return []), pipe_of = Some \<lparr>unread = [], closed = False\<rparr>\<rparr>)"
proof -
  have "gdbc_to_ds_buffer example_library ''q.gdbc'' ''net.gdbn''
          = Inr \<lparr>unread = float64_stream, closed = False\<rparr>"
    by (simp add: gdbc_to_ds_buffer_def)
  then show ?thesis
    by (simp add: iter_gdbc_next_def iter_gdbc_def iter_ds_float64_example resume_def
        set_unread_def)
qed

text \<open>
  C8. A consumer has called \<^verbatim>\<open>next\<close> on the generator of \<^verbatim>\<open>iter_gdbc\<close> some \<open>k > 0\<close> times,
  has got a record every time, and now closes the generator (or drops it). Then
  \<^verbatim>\<open>close\<close> raises nothing, the generator is over, and the standard output of the
  conversion process, which the first \<^verbatim>\<open>next\<close> started, is closed.
\<close>

theorem iter_gdbc_close_after_abandon:
  assumes "consume (iter_gdbc_next env gdbc network mask_id year time_step) k iter_gdbc
             = (outs, g)"
    and "0 < k" and "\<exists>v. last outs = Item v"
  shows "\<exists>p. fst (iter_gdbc_close g) = None
             \<and> pipe_of (snd (iter_gdbc_close g)) = Some p \<and> closed p
             \<and> frame (snd (iter_gdbc_close g)) = Finished"
proof -
  have "frame (iter_gdbc :: (ndarray \<times> 'a) gdbc_generator) = Created"
    by (simp add: iter_gdbc_def)
  with consume_all_items [OF assms(1) _ assms(2,3)] have "started g" by simp
  then show ?thesis
    by (auto simp: started_iff iter_gdbc_close_def)
qed

theorem iter_gdbc_close_after_abandon_witness:
  "consume (iter_gdbc_next example_library ''q.gdbc'' ''net.gdbn'' example_grid 2001 ''annual'')
     (Suc 0) iter_gdbc
   = ([Item (\<lparr>dt = float64, shape = [2, 2],
               cells = [NaN, FloatVal 10, FloatVal 20, FloatVal 10]\<rparr>,
              [0x32, 0x30, 0x30, 0x31])],
      \<lparr>frame = Suspended (Return []), pipe_of = Some \<lparr>unread = [], closed = False\<rparr>\<rparr>)
   \<and> iter_gdbc_close
        (\<lparr>frame = Suspended (Return []), pipe_of = Some \<lparr>unread = [], closed = False\<rparr>\<rparr>
           :: (ndarray \<times> byte list) gdbc_generator)
     = (None, \<lparr>frame = Finished, pipe_of = Some \<lparr>unread = [], closed = True\<rparr>\<rparr>)"
proof (rule conjI)
  show "consume (iter_gdbc_next example_library ''q.gdbc'' ''net.gdbn'' example_grid 2001 ''annual'')
     (Suc 0) iter_gdbc
   = ([Item (\<lparr>dt = float64, shape = [2, 2],
               cells = [NaN, FloatVal 10, FloatVal 20, FloatVal 10]\<rparr>,
              [0x32, 0x30, 0x30, 0x31])],
      \<lparr>frame = Suspended (Return []), pipe_of = Some \<lparr>unread = [], closed = False\<rparr>\<rparr>)"
    by (rule gdbc_example)
next
  from iter_gdbc_close_after_abandon [OF gdbc_example]
  obtain p where
    "pipe_of (snd (iter_gdbc_close
        (\<lparr>frame = Suspended (Return []), pipe_of = Some \<lparr>unread = [], closed = False\<rparr>\<rparr>
           :: (ndarray \<times> byte list) gdbc_generator))) = Some p" and "closed p"
    by auto
  then show "iter_gdbc_close
        (\<lparr>frame = Suspended (Return []), pipe_of = Some \<lparr>unread = [], closed = False\<rparr>\<rparr>
           :: (ndarray \<times> byte list) gdbc_generator)
     = (None, \<lparr>frame = Finished, pipe_of = Some \<lparr>unread = [], closed = True\<rparr>\<rparr>)"
    by (simp add: iter_gdbc_close_def)
qed

subsection \<open>The CSV files of \<^verbatim>\<open>sample_ds\<close>\<close>














end
